theory Spec2Isabelle
  imports Main
begin

section \<open>Go values and effects of the end-to-end harness\<close>

text \<open>
  The harness of \<^verbatim>\<open>e2e/e2e_test.go\<close> is sequential test glue: every function
  takes the test handle \<^verbatim>\<open>t\<close>, talks to the operating system (commands, HTTP, the
  protocol client) and either returns, stops the running test, panics, or ends the
  process. The model passes an explicit state and returns errors as values.

  A Go \<^verbatim>\<open>error\<close> is modelled by its message; \<^verbatim>\<open>nil\<close> is \<open>None\<close>.
\<close>

type_synonym error = string

text \<open>
  The ways a call does not return to its caller:
  \<^item> \<open>FailNow\<close>: \<^verbatim>\<open>t.FailNow\<close> (through \<^verbatim>\<open>t.Fatal\<close>, \<^verbatim>\<open>t.Fatalf\<close> or a failed
    \<^verbatim>\<open>require.*\<close>): the test is marked failed and its goroutine leaves through
    \<^verbatim>\<open>runtime.Goexit\<close>, which runs the deferred calls;
  \<^item> \<open>Panicked\<close>: a run-time panic in the goroutine of the running test (nil
    dereference, slice bounds out of range);
  \<^item> \<open>Exited\<close>: \<^verbatim>\<open>os.Exit(1)\<close>, reached through \<^verbatim>\<open>log.Fatalf\<close>: the process ends
    at once, no deferred call and no registered cleanup runs;
  \<^item> \<open>Crashed\<close>: the process is dying of the panic of a sub-test: the test runner
    runs the registered cleanups of the sub-test and of its ancestors and raises the
    panic again in the goroutine of the sub-test, where nothing recovers it.
\<close>

datatype abort = FailNow | Panicked | Exited | Crashed

text \<open>\<^verbatim>\<open>exec.Cmd\<close>, with the fields the harness sets.\<close>

record Cmd =
  Args :: "string list"
  Dir :: string
  Stdin :: string

definition exec_Command :: "string list \<Rightarrow> Cmd" where
  "exec_Command argv = \<lparr>Args = argv, Dir = '''', Stdin = ''''\<rparr>"

text \<open>\<^verbatim>\<open>http.Response\<close>: the status code and the body, a handle that is closed.\<close>

record Response =
  StatusCode :: int
  Body :: nat

text \<open>
  A Go value of type \<^verbatim>\<open>any\<close>, as decoded from JSON: the arguments of a tool call.
  An object is a Go map, given by the list of its entries; a key is looked up with
  \<open>map_of\<close>.
\<close>

datatype any =
    ANil
  | ABool bool
  | ANumber int
  | AString string
  | AList "any list"
  | AObject "(string \<times> any) list"

text \<open>What the harness does to the outside, in order.\<close>

datatype event =
    Log string
  | LogValue string any
  | Print string
  | Exec Cmd
  | HttpGet string
  | BodyClose nat
  | Sleep nat
  | NewStdioClient string "string list" "string list"
  | NewHttpClient string
  | ClientClose nat
  | Run string
  | Done string bool

text \<open>
  The two closures the harness registers with \<^verbatim>\<open>t.Cleanup\<close>:
  \<^verbatim>\<open>func() { cleanupAllTestContainers(t) }\<close> in \<^verbatim>\<open>TestE2E\<close> and
  \<^verbatim>\<open>func() { stopContainer(t, containerID) }\<close> in \<^verbatim>\<open>createHTTPClient\<close>.
\<close>

datatype cleanup = SweepCleanup | StopCleanup string

text \<open>
  The cleanup closure a client factory returns: \<^verbatim>\<open>client.Close()\<close> for the stdio
  client, and the same under \<^verbatim>\<open>client != nil\<close> for the HTTP client.
\<close>

datatype closer = StdioClose "nat option" | HTTPClose "nat option"

text \<open>
  The state: the outside world, the events so far, and of the running test
  (\<^verbatim>\<open>t\<close>) the registered cleanups, latest first, and the failed flag.
\<close>

record 'w state =
  world :: 'w
  trace :: "event list"
  cleanups :: "cleanup list"
  failed :: bool

type_synonym ('w, 'a) prog = "'w state \<Rightarrow> (abort + 'a) \<times> 'w state"

definition ret :: "'a \<Rightarrow> ('w, 'a) prog" where
  "ret x s = (Inr x, s)"

definition bnd :: "('w, 'a) prog \<Rightarrow> ('a \<Rightarrow> ('w, 'b) prog) \<Rightarrow> ('w, 'b) prog" where
  "bnd m f s = (case m s of (Inl a, s') \<Rightarrow> (Inl a, s') | (Inr x, s') \<Rightarrow> f x s')"

definition seq :: "('w, 'a) prog \<Rightarrow> ('w, 'b) prog \<Rightarrow> ('w, 'b) prog" where
  "seq m n = bnd m (\<lambda>_. n)"

definition emit :: "event \<Rightarrow> ('w, unit) prog" where
  "emit e s = (Inr (), s\<lparr>trace := trace s @ [e]\<rparr>)"

definition panic :: "('w, 'a) prog" where
  "panic s = (Inl Panicked, s)"

subsection \<open>The outside world\<close>

text \<open>Results of the protocol library (\<^verbatim>\<open>mcp-go\<close>), as far as the harness reads them.\<close>

record Implementation =
  Name :: string
  Version :: string

record InitializeRequest =
  ProtocolVersion :: string
  ClientInfo :: Implementation

record InitializeResult =
  ServerInfo :: Implementation

datatype Content =
    TextContent (Text: string)
  | ImageContent string string
  | AudioContent string string
  | EmbeddedResource string

record CallToolResult =
  Content :: "Content list"
  IsError :: bool

record CallToolRequest =
  ToolName :: string
  Arguments :: any

text \<open>
  Everything outside the harness is a parameter: each call takes the world and returns
  its Go results and the next world. A pointer result is an option (\<^verbatim>\<open>nil\<close> is
  \<open>None\<close>); a protocol client is a handle.
\<close>

record 'w env =
  environ :: "string \<rightharpoonup> string"
  LATEST_PROTOCOL_VERSION :: string
  run_Cmd :: "Cmd \<Rightarrow> 'w \<Rightarrow> (string \<times> error option) \<times> 'w"
  http_Get :: "string \<Rightarrow> 'w \<Rightarrow> (Response option \<times> error option) \<times> 'w"
  NewStdioMCPClient :: "string \<Rightarrow> string list \<Rightarrow> string list \<Rightarrow> 'w \<Rightarrow> (nat option \<times> error option) \<times> 'w"
  NewStreamableHttpClient :: "string \<Rightarrow> 'w \<Rightarrow> (nat option \<times> error option) \<times> 'w"
  Initialize :: "nat \<Rightarrow> InitializeRequest \<Rightarrow> 'w \<Rightarrow> (InitializeResult option \<times> error option) \<times> 'w"
  CallTool :: "nat \<Rightarrow> CallToolRequest \<Rightarrow> 'w \<Rightarrow> (CallToolResult option \<times> error option) \<times> 'w"
  Close :: "nat \<Rightarrow> 'w \<Rightarrow> 'w"

subsection \<open>The testing library\<close>

text \<open>\<^verbatim>\<open>t.Log\<close>, \<^verbatim>\<open>t.Logf\<close>: a line of test output.\<close>

definition t_Log :: "string \<Rightarrow> ('w, unit) prog" where
  "t_Log msg = emit (Log msg)"

text \<open>\<^verbatim>\<open>t.Fatal\<close>, \<^verbatim>\<open>t.Fatalf\<close>: \<^verbatim>\<open>Log\<close> followed by \<^verbatim>\<open>FailNow\<close>.\<close>

definition t_Fatal :: "string \<Rightarrow> ('w, 'a) prog" where
  "t_Fatal msg s = (Inl FailNow, s\<lparr>trace := trace s @ [Log msg], failed := True\<rparr>)"

text \<open>\<^verbatim>\<open>log.Fatalf\<close>: \<^verbatim>\<open>Printf\<close> followed by \<^verbatim>\<open>os.Exit(1)\<close>.\<close>

definition log_Fatalf :: "string \<Rightarrow> ('w, 'a) prog" where
  "log_Fatalf msg s = (Inl Exited, s\<lparr>trace := trace s @ [Print msg]\<rparr>)"

text \<open>
  \<^verbatim>\<open>require.NoError\<close>, \<^verbatim>\<open>require.True\<close>, \<^verbatim>\<open>require.Len\<close> and the others: when the
  condition fails, the failure is reported and \<^verbatim>\<open>t.FailNow\<close> is called.
\<close>

definition require :: "bool \<Rightarrow> string \<Rightarrow> ('w, unit) prog" where
  "require ok msg = (if ok then ret () else t_Fatal msg)"

text \<open>\<^verbatim>\<open>cmd.Output()\<close>, \<^verbatim>\<open>cmd.CombinedOutput()\<close> and \<^verbatim>\<open>cmd.Run()\<close>.\<close>

definition cmd_Output :: "'w env \<Rightarrow> Cmd \<Rightarrow> ('w, string \<times> error option) prog" where
  "cmd_Output env cmd s =
     (case run_Cmd env cmd (world s) of
        (r, w) \<Rightarrow> (Inr r, s\<lparr>world := w, trace := trace s @ [Exec cmd]\<rparr>))"

definition cmd_Run :: "'w env \<Rightarrow> Cmd \<Rightarrow> ('w, error option) prog" where
  "cmd_Run env cmd = bnd (cmd_Output env cmd) (\<lambda>(output, err). ret err)"

text \<open>
  \<^verbatim>\<open>client.Get(url)\<close> of \<^verbatim>\<open>net/http\<close>, \<^verbatim>\<open>mcpClient.NewStdioMCPClient\<close> and
  \<^verbatim>\<open>mcpClient.NewStreamableHttpClient\<close>: each is the call to the outside world with the
  arguments given, and the event of that call.
\<close>

definition client_Get ::
  "'w env \<Rightarrow> string \<Rightarrow> 'w state \<Rightarrow> (Response option \<times> error option) \<times> 'w state" where
  "client_Get env url s =
     (case http_Get env url (world s) of
        (r, w) \<Rightarrow> (r, s\<lparr>world := w, trace := trace s @ [HttpGet url]\<rparr>))"

definition mcpClient_NewStdioMCPClient ::
  "'w env \<Rightarrow> string \<Rightarrow> string list \<Rightarrow> string list \<Rightarrow> ('w, nat option \<times> error option) prog" where
  "mcpClient_NewStdioMCPClient env command envs args s =
     (case NewStdioMCPClient env command envs args (world s) of
        (r, w) \<Rightarrow> (Inr r, s\<lparr>world := w, trace := trace s @ [NewStdioClient command envs args]\<rparr>))"

definition mcpClient_NewStreamableHttpClient ::
  "'w env \<Rightarrow> string \<Rightarrow> ('w, nat option \<times> error option) prog" where
  "mcpClient_NewStreamableHttpClient env url s =
     (case NewStreamableHttpClient env url (world s) of
        (r, w) \<Rightarrow> (Inr r, s\<lparr>world := w, trace := trace s @ [NewHttpClient url]\<rparr>))"

section \<open>Container lifecycle\<close>

text \<open>
  \<^verbatim>\<open>stopContainer\<close>: returns at once on the empty identifier; otherwise
  \<^verbatim>\<open>docker stop\<close>, and \<^verbatim>\<open>docker kill\<close> when the stop failed. Failures are logged.
\<close>

definition stopContainer :: "'w env \<Rightarrow> string \<Rightarrow> ('w, unit) prog" where
  "stopContainer env containerID =
     (if containerID = '''' then ret ()
      else
        seq (t_Log (''Stopping container: '' @ containerID))
        (bnd (cmd_Run env (exec_Command [''docker'', ''stop'', containerID])) (\<lambda>err.
          case err of
            Some e \<Rightarrow>
              seq (t_Log (''Warning: failed to stop container '' @ containerID @ '': '' @ e))
              (bnd (cmd_Run env (exec_Command [''docker'', ''kill'', containerID])) (\<lambda>killErr.
                case killErr of
                  Some ke \<Rightarrow>
                    t_Log (''Warning: failed to kill container '' @ containerID @ '': '' @ ke)
                | None \<Rightarrow> ret ()))
          | None \<Rightarrow> t_Log (''Successfully stopped container: '' @ containerID))))"

text \<open>
  \<^verbatim>\<open>cleanupAllTestContainers\<close>: lists the containers of the test image; the listing
  goes to the standard input of a \<^verbatim>\<open>docker stop\<close> that is given no argument.
\<close>

definition cleanupAllTestContainers :: "'w env \<Rightarrow> ('w, unit) prog" where
  "cleanupAllTestContainers env =
     seq (t_Log ''Cleaning up all test containers...'')
     (bnd (cmd_Output env (exec_Command
             [''docker'', ''ps'', ''-q'', ''--filter'', ''ancestor=terraform-mcp-server:test-e2e'']))
       (\<lambda>(output, err).
          case err of
            Some e \<Rightarrow> t_Log (''Warning: failed to list test containers: '' @ e)
          | None \<Rightarrow>
              (let containerIDs = output in
               if containerIDs = '''' then t_Log ''No test containers found to cleanup''
               else
                 bnd (cmd_Run env ((exec_Command [''docker'', ''stop''])\<lparr>Stdin := containerIDs\<rparr>))
                   (\<lambda>err. case err of
                      Some e \<Rightarrow> t_Log (''Warning: failed to stop some test containers: '' @ e)
                    | None \<Rightarrow> t_Log ''Successfully cleaned up all test containers''))))"

text \<open>
  \<^verbatim>\<open>string(output)[:n]\<close>: a slice expression panics when \<open>n\<close> exceeds the length.
\<close>

definition slice_to :: "string \<Rightarrow> nat \<Rightarrow> ('w, string) prog" where
  "slice_to str n = (if n \<le> length str then ret (take n str) else panic)"

definition startHTTPContainer :: "'w env \<Rightarrow> string \<Rightarrow> ('w, string) prog" where
  "startHTTPContainer env port =
     (let portMapping = port @ '':8080'' in
      bnd (cmd_Output env (exec_Command
             [''docker'', ''run'', ''-d'', ''--rm'', ''-e'', ''MODE=http'', ''-p'', portMapping,
              ''terraform-mcp-server:test-e2e'']))
        (\<lambda>(output, err).
           seq (require (err = None) ''expected to start HTTP container successfully'')
           (bnd (slice_to output 12) (\<lambda>containerID.
              seq (t_Log (''Started HTTP container: '' @ containerID @ '' on port '' @ port))
              (ret containerID)))))"

section \<open>Readiness poller\<close>

text \<open>
  The condition \<^verbatim>\<open>err == nil && resp.StatusCode == 200\<close>: the right operand is
  evaluated only when \<^verbatim>\<open>err\<close> is nil, and reads through \<^verbatim>\<open>resp\<close>.
\<close>

definition is_ready :: "Response option \<Rightarrow> error option \<Rightarrow> abort + bool" where
  "is_ready resp err =
     (case err of
        Some e \<Rightarrow> Inr False
      | None \<Rightarrow> (case resp of None \<Rightarrow> Inl Panicked | Some r \<Rightarrow> Inr (StatusCode r = 200)))"

text \<open>\<^verbatim>\<open>if resp != nil { resp.Body.Close() }\<close>\<close>

definition close_body :: "Response option \<Rightarrow> event list" where
  "close_body resp = (case resp of Some r \<Rightarrow> [BodyClose (Body r)] | None \<Rightarrow> [])"

text \<open>The loop \<^verbatim>\<open>for i := 0; i < 30; i++\<close> of \<^verbatim>\<open>waitForServer\<close>, from index \<open>i\<close>.\<close>

function waitForServer_from :: "'w env \<Rightarrow> string \<Rightarrow> nat \<Rightarrow> ('w, unit) prog" where
  "waitForServer_from env baseURL i s =
     (if i < 30 then
        (case client_Get env (baseURL @ ''/health'') s of
           ((resp, err), s1) \<Rightarrow>
             (case is_ready resp err of
                Inl a \<Rightarrow> (Inl a, s1)
              | Inr True \<Rightarrow>
                  (Inr (), s1\<lparr>trace := trace s1 @ close_body resp @ [Log ''HTTP server is ready'']\<rparr>)
              | Inr False \<Rightarrow>
                  waitForServer_from env baseURL (i + 1)
                    (s1\<lparr>trace := trace s1 @ close_body resp @ [Sleep 1]\<rparr>)))
      else t_Fatal ''HTTP server failed to start within 30 seconds'' s)"
  by pat_completeness auto
termination
  by (relation "measure (\<lambda>(env, baseURL, i, s). 30 - i)") auto

declare waitForServer_from.simps [simp del]

definition waitForServer :: "'w env \<Rightarrow> string \<Rightarrow> ('w, unit) prog" where
  "waitForServer env baseURL = waitForServer_from env baseURL 0"

section \<open>Transport client factories\<close>

text \<open>\<^verbatim>\<open>os.Getenv\<close>: the value of the variable, empty when it is not set.\<close>

definition os_Getenv :: "'w env \<Rightarrow> string \<Rightarrow> string" where
  "os_Getenv env key = (case environ env key of None \<Rightarrow> '''' | Some v \<Rightarrow> v)"

definition getTestPort :: "'w env \<Rightarrow> string" where
  "getTestPort env =
     (let port = os_Getenv env ''E2E_TEST_PORT'' in
      if port \<noteq> '''' then port else ''8080'')"

text \<open>\<^verbatim>\<open>t.Cleanup(f)\<close>: \<open>f\<close> runs when the test and its sub-tests are over.\<close>

definition t_Cleanup :: "cleanup \<Rightarrow> ('w, unit) prog" where
  "t_Cleanup c s = (Inr (), s\<lparr>cleanups := c # cleanups s\<rparr>)"

definition client_Close :: "'w env \<Rightarrow> nat option \<Rightarrow> ('w, unit) prog" where
  "client_Close env client s =
     (case client of
        None \<Rightarrow> panic s
      | Some c \<Rightarrow> (Inr (), s\<lparr>world := Close env c (world s), trace := trace s @ [ClientClose c]\<rparr>))"

fun run_closer :: "'w env \<Rightarrow> closer \<Rightarrow> ('w, unit) prog" where
  "run_closer env (StdioClose client) = client_Close env client"
| "run_closer env (HTTPClose client) =
     (if client \<noteq> None then client_Close env client else ret ())"

definition createStdioClient :: "'w env \<Rightarrow> ('w, nat option \<times> closer) prog" where
  "createStdioClient env =
     (let args = [''docker'', ''run'', ''-i'', ''--rm'', ''terraform-mcp-server:test-e2e''] in
      seq (t_Log ''Starting Stdio MCP client...'')
      (bnd (mcpClient_NewStdioMCPClient env (hd args) [] (tl args)) (\<lambda>(client, err).
         seq (require (err = None) ''expected to create stdio client successfully'')
         (ret (client, StdioClose client)))))"

definition createHTTPClient :: "'w env \<Rightarrow> ('w, nat option \<times> closer) prog" where
  "createHTTPClient env =
     seq (t_Log ''Starting HTTP MCP server...'')
     (let port = getTestPort env;
          baseURL = ''http://localhost:'' @ port;
          mcpURL = ''http://localhost:'' @ port @ ''/mcp'' in
      bnd (startHTTPContainer env port) (\<lambda>containerID.
      seq (t_Cleanup (StopCleanup containerID))
      (seq (waitForServer env baseURL)
      (bnd (mcpClient_NewStreamableHttpClient env mcpURL) (\<lambda>(client, err).
         seq (require (err = None) ''expected to create HTTP client successfully'')
         (ret (client, HTTPClose client)))))))"

definition buildDockerImage :: "'w env \<Rightarrow> ('w, unit) prog" where
  "buildDockerImage env =
     seq (t_Log ''Building Docker image for e2e tests...'')
     (bnd (cmd_Output env ((exec_Command [''make'', ''VERSION=test-e2e'', ''docker-build''])\<lparr>Dir := ''..''\<rparr>))
        (\<lambda>(output, err).
           require (err = None) (''expected to build Docker image successfully, output: '' @ output)))"

section \<open>Sub-tests, deferred calls and cleanups\<close>

fun run_cleanup :: "'w env \<Rightarrow> cleanup \<Rightarrow> ('w, unit) prog" where
  "run_cleanup env SweepCleanup = cleanupAllTestContainers env"
| "run_cleanup env (StopCleanup containerID) = stopContainer env containerID"

text \<open>
  The cleanups of a test run latest first. Neither closure of the harness can stop the
  test, panic or exit (lemmas \<open>stopContainer_returns\<close> and
  \<open>cleanupAllTestContainers_returns\<close> below), so only their state is kept.
\<close>

fun run_cleanups :: "'w env \<Rightarrow> cleanup list \<Rightarrow> 'w state \<Rightarrow> 'w state" where
  "run_cleanups env [] s = s"
| "run_cleanups env (c # cs) s = run_cleanups env cs (snd (run_cleanup env c s))"

definition t_runCleanup :: "'w env \<Rightarrow> 'w state \<Rightarrow> 'w state" where
  "t_runCleanup env s = run_cleanups env (cleanups s) (s\<lparr>cleanups := []\<rparr>)"

text \<open>
  \<^verbatim>\<open>t.Run(name, f)\<close>: \<open>f\<close> runs as a sub-test with a test handle of its own, and the
  caller waits for it.
  \<^item> When \<open>f\<close> returns or stops through \<^verbatim>\<open>FailNow\<close>, the cleanups of the sub-test run,
    the failure is passed on to the parent, and \<^verbatim>\<open>t.Run\<close> returns whether the sub-test
    passed: the caller goes on.
  \<^item> When \<open>f\<close> panics, the runner runs, in the goroutine of the sub-test, the cleanups
    of the sub-test and then those of each of its ancestors, and raises the panic again:
    the process dies. The ancestors are waiting in \<^verbatim>\<open>t.Run\<close>; their deferred calls do
    not run.
  \<^item> When the process has exited inside \<open>f\<close>, nothing else happens.
\<close>

definition t_Run :: "'w env \<Rightarrow> string \<Rightarrow> ('w, unit) prog \<Rightarrow> ('w, bool) prog" where
  "t_Run env name f s =
     (case f (s\<lparr>trace := trace s @ [Run name], cleanups := [], failed := False\<rparr>) of
        (Inl Exited, s1) \<Rightarrow> (Inl Exited, s1)
      | (Inl Crashed, s1) \<Rightarrow> (Inl Crashed, (t_runCleanup env s1)\<lparr>cleanups := cleanups s\<rparr>)
      | (Inl Panicked, s1) \<Rightarrow>
          (Inl Crashed, (t_runCleanup env (s1\<lparr>failed := True\<rparr>))\<lparr>cleanups := cleanups s\<rparr>)
      | (r, s1) \<Rightarrow>
          (let s2 = t_runCleanup env s1; passed = (\<not> failed s2) in
           (Inr passed,
            s2\<lparr>trace := trace s2 @ [Done name passed],
               cleanups := cleanups s,
               failed := (if passed then failed s else True)\<rparr>)))"

text \<open>
  \<^verbatim>\<open>defer d()\<close> before the rest \<open>f\<close> of a function body: \<open>d\<close> runs when \<open>f\<close> returns,
  stops through \<^verbatim>\<open>FailNow\<close> or panics, and not when the process has exited or is dying
  of the panic of a sub-test.
\<close>

definition deferred :: "('w, unit) prog \<Rightarrow> ('w, 'a) prog \<Rightarrow> ('w, 'a) prog" where
  "deferred d f s =
     (case f s of
        (Inl Exited, s1) \<Rightarrow> (Inl Exited, s1)
      | (Inl Crashed, s1) \<Rightarrow> (Inl Crashed, s1)
      | (r, s1) \<Rightarrow> (case d s1 of (Inl a, s2) \<Rightarrow> (Inl a, s2) | (Inr u, s2) \<Rightarrow> (r, s2)))"

text \<open>\<^verbatim>\<open>for _, x := range xs { f(x) }\<close>\<close>

fun for_each :: "'a list \<Rightarrow> ('a \<Rightarrow> ('w, 'b) prog) \<Rightarrow> ('w, unit) prog" where
  "for_each [] f = ret ()"
| "for_each (x # xs) f = bnd (f x) (\<lambda>_. for_each xs f)"

section \<open>Test suite runner\<close>

text \<open>
  Modelled from the spec: the type of the test cases and the four tables
  (\<^verbatim>\<open>providerTestCases\<close>, \<^verbatim>\<open>providerDocsTestCases\<close>, \<^verbatim>\<open>searchModulesTestCases\<close>,
  \<^verbatim>\<open>moduleDetailsTestCases\<close>) are declared in a file of the package that is not among
  the sources. A test case is the record the spec gives (name, description, payload,
  expected-failure flag, content-category tag), with the field names \<^verbatim>\<open>runTestSuite\<close>
  reads; the tables are parameters.
\<close>

record TestCase =
  TestName :: string
  TestDescription :: string
  TestPayload :: any
  TestShouldFail :: bool
  TestContentType :: string

record tables =
  providerTestCases :: "TestCase list"
  providerDocsTestCases :: "TestCase list"
  searchModulesTestCases :: "TestCase list"
  moduleDetailsTestCases :: "TestCase list"

text \<open>
  Modelled from the spec: the content-category tags \<^verbatim>\<open>CONST_TYPE_DATA_SOURCE\<close>,
  \<^verbatim>\<open>CONST_TYPE_RESOURCE\<close>, \<^verbatim>\<open>CONST_TYPE_GUIDES\<close> and \<^verbatim>\<open>CONST_TYPE_FUNCTIONS\<close> are
  constants of the package declared outside the sources; they are parameters.
\<close>

record content_types =
  CONST_TYPE_DATA_SOURCE :: string
  CONST_TYPE_RESOURCE :: string
  CONST_TYPE_GUIDES :: string
  CONST_TYPE_FUNCTIONS :: string

text \<open>\<^verbatim>\<open>strings.Contains\<close>, which \<^verbatim>\<open>require.Contains\<close> uses on strings.\<close>

fun strings_Contains :: "string \<Rightarrow> string \<Rightarrow> bool" where
  "strings_Contains [] substr = (substr = [])"
| "strings_Contains (c # s) substr =
     (take (length substr) (c # s) = substr \<or> strings_Contains s substr)"

text \<open>The verb \<^verbatim>\<open>%d\<close> on a length, and \<^verbatim>\<open>%v\<close> on an error.\<close>

function show_nat :: "nat \<Rightarrow> string" where
  "show_nat n =
     (if n < 10 then [char_of (48 + n)]
      else show_nat (n div 10) @ [char_of (48 + n mod 10)])"
  by pat_completeness auto
termination
  by (relation "measure id") auto

declare show_nat.simps [simp del]

definition show_error :: "error option \<Rightarrow> string" where
  "show_error err = (case err of Some e \<Rightarrow> e | None \<Rightarrow> ''<nil>'')"

text \<open>Reading through a pointer, and \<^verbatim>\<open>xs[0]\<close>: both panic when there is nothing.\<close>

definition deref :: "'a option \<Rightarrow> ('w, 'a) prog" where
  "deref p = (case p of None \<Rightarrow> panic | Some v \<Rightarrow> ret v)"

definition index0 :: "'a list \<Rightarrow> ('w, 'a) prog" where
  "index0 xs = (case xs of [] \<Rightarrow> panic | x # rest \<Rightarrow> ret x)"

text \<open>
  \<^verbatim>\<open>textContent, ok := c.(mcp.TextContent)\<close>: the text and \<open>True\<close> for a text item,
  the zero value and \<open>False\<close> for any other.
\<close>

definition as_TextContent :: "Content \<Rightarrow> string \<times> bool" where
  "as_TextContent c = (case c of TextContent text \<Rightarrow> (text, True) | _ \<Rightarrow> ('''', False))"

definition initialize_request :: "'w env \<Rightarrow> InitializeRequest" where
  "initialize_request env =
     \<lparr>ProtocolVersion = LATEST_PROTOCOL_VERSION env,
      ClientInfo = \<lparr>Name = ''e2e-test-client'', Version = ''0.0.1''\<rparr>\<rparr>"

definition client_Initialize ::
  "'w env \<Rightarrow> nat option \<Rightarrow> InitializeRequest \<Rightarrow> ('w, InitializeResult option \<times> error option) prog" where
  "client_Initialize env client request s =
     (case client of
        None \<Rightarrow> panic s
      | Some c \<Rightarrow> (case Initialize env c request (world s) of (r, w) \<Rightarrow> (Inr r, s\<lparr>world := w\<rparr>)))"

definition client_CallTool ::
  "'w env \<Rightarrow> nat option \<Rightarrow> CallToolRequest \<Rightarrow> ('w, CallToolResult option \<times> error option) prog" where
  "client_CallTool env client request s =
     (case client of
        None \<Rightarrow> panic s
      | Some c \<Rightarrow> (case CallTool env c request (world s) of (r, w) \<Rightarrow> (Inr r, s\<lparr>world := w\<rparr>)))"

text \<open>\<^verbatim>\<open>ensureClientInitialized\<close>: a failed handshake stops the calling test.\<close>

definition ensureClientInitialized :: "'w env \<Rightarrow> nat option \<Rightarrow> ('w, unit) prog" where
  "ensureClientInitialized env client =
     bnd (client_Initialize env client (initialize_request env)) (\<lambda>(result, err).
       case err of
         Some e \<Rightarrow> t_Fatal (''Failed to initialize MCP client: '' @ e)
       | None \<Rightarrow>
           bnd (deref result) (\<lambda>result.
             seq (t_Log (''Initialized with server: '' @ Name (ServerInfo result) @ '' '' @
                         Version (ServerInfo result)))
             (require (Name (ServerInfo result) = ''terraform-mcp-server'') ''Not equal'')))"

text \<open>
  The body of the sub-test \<^verbatim>\<open>Initialize\<close> of \<^verbatim>\<open>runTestSuite\<close>: a failed handshake goes
  to \<^verbatim>\<open>log.Fatalf\<close>.
\<close>

definition Initialize_test :: "'w env \<Rightarrow> nat option \<Rightarrow> ('w, unit) prog" where
  "Initialize_test env client =
     bnd (client_Initialize env client (initialize_request env)) (\<lambda>(result, err).
       case err of
         Some e \<Rightarrow> log_Fatalf (''Failed to initialize: '' @ e)
       | None \<Rightarrow>
           bnd (deref result) (\<lambda>result.
             seq (emit (Print (''Initialized with server: '' @ Name (ServerInfo result) @ '' '' @
                               Version (ServerInfo result))))
             (require (Name (ServerInfo result) = ''terraform-mcp-server'') ''Not equal'')))"

subsection \<open>The assertions on a tool response\<close>

text \<open>
  What each table's sub-test does with \<^verbatim>\<open>response, err := client.CallTool(ctx, request)\<close>:
  the statement \<^verbatim>\<open>if testCase.TestShouldFail { ... } else { ... }\<close>.
\<close>

definition resolveProviderDocID_assert ::
  "content_types \<Rightarrow> TestCase \<Rightarrow> CallToolResult option \<Rightarrow> error option \<Rightarrow> ('w, unit) prog" where
  "resolveProviderDocID_assert K testCase response err =
     (if TestShouldFail testCase then
        seq (require (err \<noteq> None) ''expected to call resolveProviderDocID tool with error'')
        (t_Log (''Error: '' @ show_error err))
      else
        seq (require (err = None) ''expected to call resolveProviderDocID tool successfully'')
        (bnd (deref response) (\<lambda>response.
        seq (require (\<not> IsError response) ''expected result not to be an error'')
        (seq (require (length (Content response) = 1) ''expected content to have one item'')
        (bnd (index0 (Content response)) (\<lambda>c.
        case as_TextContent c of (textContent, ok) \<Rightarrow>
        seq (require ok ''expected content to be of type TextContent'')
        (seq (t_Log (''Content length: '' @ show_nat (length textContent)))
        (if TestContentType testCase = CONST_TYPE_DATA_SOURCE K then
           require (strings_Contains textContent ''Category: data-sources'')
             ''expected content to contain data-sources''
         else if TestContentType testCase = CONST_TYPE_RESOURCE K then
           require (strings_Contains textContent ''Category: resources'')
             ''expected content to contain resources''
         else if TestContentType testCase = CONST_TYPE_GUIDES K then
           require (strings_Contains textContent ''guide'') ''expected content to contain guide''
         else if TestContentType testCase = CONST_TYPE_FUNCTIONS K then
           require (strings_Contains textContent ''functions'')
             ''expected content to contain functions''
         else ret ()))))))))"

definition getProviderDocs_assert ::
  "TestCase \<Rightarrow> CallToolResult option \<Rightarrow> error option \<Rightarrow> ('w, unit) prog" where
  "getProviderDocs_assert testCase response err =
     (if TestShouldFail testCase then
        seq (require (err \<noteq> None) ''expected to call getProviderDocs tool with error'')
        (t_Log (''Error: '' @ show_error err))
      else
        seq (require (err = None) ''expected to call getProviderDocs tool successfully'')
        (bnd (deref response) (\<lambda>response.
        seq (require (\<not> IsError response) ''expected result not to be an error'')
        (seq (require (length (Content response) = 1) ''expected content to have one item'')
        (bnd (index0 (Content response)) (\<lambda>c.
        case as_TextContent c of (textContent, ok) \<Rightarrow>
        seq (require ok ''expected content to be of type TextContent'')
        (seq (t_Log (''Content length: '' @ show_nat (length textContent)))
        (require (strings_Contains textContent ''page_title'')
           ''expected content to contain a page_title''))))))))"

definition searchModules_assert ::
  "TestCase \<Rightarrow> CallToolResult option \<Rightarrow> error option \<Rightarrow> ('w, unit) prog" where
  "searchModules_assert testCase response err =
     (if TestShouldFail testCase then
        seq (require (err \<noteq> None) ''expected to call searchModules tool with error'')
        (t_Log (''Error: '' @ show_error err))
      else
        seq (require (err = None) ''expected to call searchModules tool successfully'')
        (bnd (deref response) (\<lambda>response.
        seq (require (\<not> IsError response) ''expected result not to be an error'')
        (if length (Content response) > 0 then
           bnd (index0 (Content response)) (\<lambda>c.
           case as_TextContent c of (textContent, ok) \<Rightarrow>
           seq (require ok ''expected content to be of type TextContent'')
           (t_Log (''Content length: '' @ show_nat (length textContent))))
         else t_Log ''Response content is empty for successful call.''))))"

definition moduleDetails_assert ::
  "content_types \<Rightarrow> TestCase \<Rightarrow> CallToolResult option \<Rightarrow> error option \<Rightarrow> ('w, unit) prog" where
  "moduleDetails_assert K testCase response err =
     (if TestShouldFail testCase then
        seq (require (err \<noteq> None) ''expected to call moduleDetails tool with error'')
        (t_Log (''Error: '' @ show_error err))
      else
        seq (require (err = None) ''expected to call moduleDetails tool successfully'')
        (bnd (deref response) (\<lambda>response.
        seq (require (\<not> IsError response) ''expected result not to be an error'')
        (seq (require (length (Content response) = 1) ''expected content to have one item'')
        (bnd (index0 (Content response)) (\<lambda>c.
        case as_TextContent c of (textContent, ok) \<Rightarrow>
        seq (require ok ''expected content to be of type TextContent'')
        (seq (t_Log (''Content length: '' @ show_nat (length textContent)))
        (if TestContentType testCase = CONST_TYPE_DATA_SOURCE K then
           require (\<not> strings_Contains textContent ''**Category:** resources'')
             ''expected content not to contain resources''
         else if TestContentType testCase = CONST_TYPE_RESOURCE K then
           require (\<not> strings_Contains textContent ''**Category:** data-sources'')
             ''expected content not to contain data-sources''
         else ret ()))))))))"

subsection \<open>The sub-tests of the four tables\<close>

definition resolveProviderDocID_test ::
  "'w env \<Rightarrow> content_types \<Rightarrow> nat option \<Rightarrow> TestCase \<Rightarrow> ('w, unit) prog" where
  "resolveProviderDocID_test env K client testCase =
     seq (ensureClientInitialized env client)
     (seq (t_Log (''TOOL resolveProviderDocID '' @ TestDescription testCase))
     (seq (emit (LogValue ''Test payload: '' (TestPayload testCase)))
     (bnd (client_CallTool env client
             \<lparr>ToolName = ''resolveProviderDocID'', Arguments = TestPayload testCase\<rparr>)
        (\<lambda>(response, err). resolveProviderDocID_assert K testCase response err))))"

definition getProviderDocs_test :: "'w env \<Rightarrow> nat option \<Rightarrow> TestCase \<Rightarrow> ('w, unit) prog" where
  "getProviderDocs_test env client testCase =
     seq (ensureClientInitialized env client)
     (seq (t_Log (''TOOL getProviderDocs '' @ TestDescription testCase))
     (seq (emit (LogValue ''Test payload: '' (TestPayload testCase)))
     (bnd (client_CallTool env client
             \<lparr>ToolName = ''getProviderDocs'', Arguments = TestPayload testCase\<rparr>)
        (\<lambda>(response, err). getProviderDocs_assert testCase response err))))"

definition searchModules_test :: "'w env \<Rightarrow> nat option \<Rightarrow> TestCase \<Rightarrow> ('w, unit) prog" where
  "searchModules_test env client testCase =
     seq (ensureClientInitialized env client)
     (seq (t_Log (''TOOL searchModules '' @ TestDescription testCase))
     (seq (emit (LogValue ''Test payload: '' (TestPayload testCase)))
     (bnd (client_CallTool env client
             \<lparr>ToolName = ''searchModules'', Arguments = TestPayload testCase\<rparr>)
        (\<lambda>(response, err). searchModules_assert testCase response err))))"

definition moduleDetails_test ::
  "'w env \<Rightarrow> content_types \<Rightarrow> nat option \<Rightarrow> TestCase \<Rightarrow> ('w, unit) prog" where
  "moduleDetails_test env K client testCase =
     seq (ensureClientInitialized env client)
     (seq (t_Log (''TOOL moduleDetails '' @ TestDescription testCase))
     (seq (emit (LogValue ''Test payload: '' (TestPayload testCase)))
     (bnd (client_CallTool env client
             \<lparr>ToolName = ''moduleDetails'', Arguments = TestPayload testCase\<rparr>)
        (\<lambda>(response, err). moduleDetails_assert K testCase response err))))"

text \<open>\<^verbatim>\<open>runTestSuite\<close>: the handshake sub-test, then one sub-test per case of each table.\<close>

definition runTestSuite ::
  "'w env \<Rightarrow> content_types \<Rightarrow> tables \<Rightarrow> nat option \<Rightarrow> string \<Rightarrow> ('w, unit) prog" where
  "runTestSuite env K T client transportName =
     seq (t_Run env ''Initialize'' (Initialize_test env client))
     (seq (for_each (providerTestCases T) (\<lambda>testCase.
        t_Run env (transportName @ ''_resolveProviderDocID/'' @ TestName testCase)
          (resolveProviderDocID_test env K client testCase)))
     (seq (for_each (providerDocsTestCases T) (\<lambda>testCase.
        t_Run env (transportName @ ''_getProviderDocs/'' @ TestName testCase)
          (getProviderDocs_test env client testCase)))
     (seq (for_each (searchModulesTestCases T) (\<lambda>testCase.
        t_Run env (transportName @ ''_searchModules/'' @ TestName testCase)
          (searchModules_test env client testCase)))
     (for_each (moduleDetailsTestCases T) (\<lambda>testCase.
        t_Run env (transportName @ ''_moduleDetails/'' @ TestName testCase)
          (moduleDetails_test env K client testCase))))))"

text \<open>
  \<^verbatim>\<open>TestE2E\<close>: the image is built, the sweep is registered as a cleanup, and each
  transport runs as a sub-test: its factory, the deferred cleanup the factory returned,
  and the suite.
\<close>

definition TestE2E :: "'w env \<Rightarrow> content_types \<Rightarrow> tables \<Rightarrow> ('w, unit) prog" where
  "TestE2E env K T =
     seq (buildDockerImage env)
     (seq (t_Cleanup SweepCleanup)
     (for_each [(''Stdio'', createStdioClient env), (''HTTP'', createHTTPClient env)]
        (\<lambda>(name, clientFactory).
           t_Run env name
             (bnd clientFactory (\<lambda>(client, cleanup).
                deferred (run_closer env cleanup) (runTestSuite env K T client name))))))"

text \<open>
  The test binary: the runner starts \<^verbatim>\<open>TestE2E\<close> as it starts a sub-test, from a state
  with no event and no cleanup.
\<close>

definition start :: "'w \<Rightarrow> 'w state" where
  "start w = \<lparr>world = w, trace = [], cleanups = [], failed = False\<rparr>"

definition go_test :: "'w env \<Rightarrow> content_types \<Rightarrow> tables \<Rightarrow> 'w \<Rightarrow> (abort + bool) \<times> 'w state" where
  "go_test env K T w = t_Run env ''TestE2E'' (TestE2E env K T) (start w)"

section \<open>The tool \<^verbatim>\<open>policy_details\<close>\<close>

text \<open>
  Modelled from the spec: \<^verbatim>\<open>client.TerraformPolicyDetails\<close> is declared in a package
  that is not among the sources. The record has the fields the handler reads:
  \<^verbatim>\<open>Data.Attributes.Readme\<close>, and of each entry of \<^verbatim>\<open>Included\<close> the \<^verbatim>\<open>Type\<close> and
  the \<^verbatim>\<open>Attributes.Name\<close> and \<^verbatim>\<open>Attributes.Shasum\<close>.
\<close>

record Included =
  Type :: string
  Attributes_Name :: string
  Attributes_Shasum :: string

record TerraformPolicyDetails =
  Data_Attributes_Readme :: string
  Included :: "Included list"

text \<open>
  Modelled from the spec: \<^verbatim>\<open>client.SendRegistryCall\<close> and \<^verbatim>\<open>utils.ExtractReadme\<close> are
  functions of packages that are not among the sources; with the JSON decoder they are
  parameters. A registry call is remembered by its method, URI and API version.
\<close>

record registry =
  SendRegistryCall :: "string \<Rightarrow> string \<Rightarrow> string \<Rightarrow> string \<times> error option"
  json_Unmarshal :: "string \<Rightarrow> TerraformPolicyDetails \<times> error option"
  ExtractReadme :: "string \<Rightarrow> string"

type_synonym registry_call = "string \<times> string \<times> string"

text \<open>
  Modelled from the spec: \<^verbatim>\<open>utils.LogAndReturnError\<close> is a function of a package that
  is not among the sources. By its name and by the spec's propagation policy (a handler
  returns a descriptive error string alongside the error value) it logs and returns an
  error made of the context and the cause; the result is never nil.
\<close>

definition LogAndReturnError :: "string \<Rightarrow> error option \<Rightarrow> error option" where
  "LogAndReturnError context err = Some (context @ '', '' @ show_error err)"

text \<open>
  \<^verbatim>\<open>request.GetArguments()\<close> and \<^verbatim>\<open>request.RequireString(key)\<close> of the protocol
  library: the arguments when they are a JSON object, and of the argument \<open>key\<close> the
  string, or an error when it is missing or not a string.
\<close>

definition GetArguments :: "CallToolRequest \<Rightarrow> (string \<times> any) list" where
  "GetArguments request = (case Arguments request of AObject kvs \<Rightarrow> kvs | _ \<Rightarrow> [])"

definition RequireString :: "CallToolRequest \<Rightarrow> string \<Rightarrow> string \<times> error option" where
  "RequireString request key =
     (case map_of (GetArguments request) key of
        Some val \<Rightarrow>
          (case val of
             AString str \<Rightarrow> (str, None)
           | _ \<Rightarrow> ('''', Some (''argument '' @ key @ '' is not a string'')))
      | None \<Rightarrow> ('''', Some (''required argument '' @ key @ '' not found'')))"

definition NewToolResultText :: "string \<Rightarrow> CallToolResult" where
  "NewToolResultText text = \<lparr>Content = [TextContent text], IsError = False\<rparr>"

definition nl :: string where
  "nl = [CHR 0x0A]"

definition dq :: string where
  "dq = [CHR 0x22]"

text \<open>
  The loop over \<^verbatim>\<open>policyDetails.Included\<close>: the pair of \<^verbatim>\<open>policyList\<close> and
  \<^verbatim>\<open>moduleList\<close> after one entry.
\<close>

definition add_included :: "string \<Rightarrow> Included \<Rightarrow> string \<times> string \<Rightarrow> string \<times> string" where
  "add_included terraformPolicyID policy acc =
     (case acc of (policyList, moduleList) \<Rightarrow>
        (let moduleList1 =
               (if Type policy = ''policy-modules'' then
                  moduleList @ nl @ ''module '' @ dq @ Attributes_Name policy @ dq @ '' {'' @ nl @
                  ''source = '' @ dq @ ''https://registry.terraform.io/v2'' @ terraformPolicyID @
                  ''/policy-module/'' @ Attributes_Name policy @ ''.sentinel?checksum=sha256:'' @
                  Attributes_Shasum policy @ dq @ nl @ ''}'' @ nl
                else moduleList);
             policyList1 =
               (if Type policy = ''policies'' then
                  policyList @ ''- POLICY_NAME: '' @ Attributes_Name policy @ nl @
                  ''- POLICY_CHECKSUM: sha256:'' @ Attributes_Shasum policy @ nl @
                  nl @ ''---'' @ nl
                else policyList)
         in (policyList1, moduleList1)))"

text \<open>
  \<^verbatim>\<open>getPolicyDetailsHandler\<close>: the result, the error, and the registry calls made.
\<close>

definition getPolicyDetailsHandler ::
  "registry \<Rightarrow> CallToolRequest \<Rightarrow> (CallToolResult option \<times> error option) \<times> registry_call list" where
  "getPolicyDetailsHandler reg request =
     (case RequireString request ''terraform_policy_id'' of (terraformPolicyID, err) \<Rightarrow>
      if err \<noteq> None then
        ((None, LogAndReturnError
           ''terraform_policy_id is required and must be a string, it is fetched by running the search_policies tool''
           err), [])
      else if terraformPolicyID = '''' then
        ((None, LogAndReturnError
           ''terraform_policy_id cannot be empty, it is fetched by running the search_policies tool''
           None), [])
      else
        (let uri = terraformPolicyID @ ''?include=policies,policy-modules,policy-library'';
             calls = [(''GET'', uri, ''v2'')]
         in case SendRegistryCall reg ''GET'' uri ''v2'' of (policyResp, err) \<Rightarrow>
            if err \<noteq> None then
              ((None, LogAndReturnError
                 ''Failed to fetch policy details: registry API did not return a successful response''
                 err), calls)
            else
              (case json_Unmarshal reg policyResp of (policyDetails, err) \<Rightarrow>
               if err \<noteq> None then
                 ((None, LogAndReturnError
                    (''error unmarshalling policy details for '' @ terraformPolicyID) err), calls)
               else
                 (let readme = ExtractReadme reg (Data_Attributes_Readme policyDetails);
                      (policyList, moduleList) =
                        fold (add_included terraformPolicyID) (Included policyDetails) ('''', '''');
                      hclTemplate =
                        nl @ moduleList @ nl @ ''policy '' @ dq @ ''<<POLICY_NAME>>'' @ dq @ '' {'' @ nl @
                        ''source = '' @ dq @ ''https://registry.terraform.io/v2'' @ terraformPolicyID @
                        ''/policy/<<POLICY_NAME>>.sentinel?checksum=<<POLICY_CHECKSUM>>'' @ dq @ nl @
                        ''enforcement_level = '' @ dq @ ''advisory'' @ dq @ nl @ ''}'' @ nl;
                      policyData =
                        ''## Policy details about '' @ terraformPolicyID @ '' '' @ nl @ nl @ readme @
                        ''---'' @ nl @
                        ''## Usage'' @ nl @ nl @
                        ''Generate the content for a HashiCorp Configuration Language (HCL) file named policies.hcl. This file should define a set of policies. For each policy provided, create a distinct policy block using the following template.'' @ nl @
                        nl @ ''```hcl'' @ nl @
                        hclTemplate @
                        nl @ ''```'' @ nl @
                        ''Available policies with SHA for '' @ terraformPolicyID @ '' are: '' @ nl @ nl @
                        policyList
                  in ((Some (NewToolResultText policyData), None), calls)))))"

section \<open>A container runtime to run the harness against\<close>

text \<open>
  The theorems on the harness hold for every outside world (every \<open>env\<close>). To run the
  harness on concrete inputs, this section gives one world: the Docker command line as
  far as the harness drives it, a scripted health endpoint, and a protocol server.
  \<^item> \<^verbatim>\<open>docker run -d\<close> starts a container and prints its identifier and a newline;
  \<^item> \<^verbatim>\<open>docker ps -q --filter ancestor=IMAGE\<close> prints the short identifiers (12
    characters) of the running containers of the image, one per line;
  \<^item> \<^verbatim>\<open>docker stop CONTAINER [CONTAINER...]\<close> and \<^verbatim>\<open>docker kill\<close> act on the
    containers named by their arguments (an identifier or a prefix of one) and fail
    when an argument names no running container; without an argument they print their
    usage and fail (\<^verbatim>\<open>"docker stop" requires at least 1 argument\<close>): they do not read
    the standard input.
\<close>

record sim =
  live :: "(string \<times> string) list"
  new_ids :: "string list"
  health :: "(Response option \<times> error option) list"
  clients :: nat
  refused :: "nat list"

definition docker_ps :: "string \<Rightarrow> sim \<Rightarrow> string" where
  "docker_ps tag w =
     concat (map (\<lambda>(cid, img). take 12 cid @ nl) (filter (\<lambda>(cid, img). img = tag) (live w)))"

definition named_by :: "string \<Rightarrow> string \<times> string \<Rightarrow> bool" where
  "named_by ref c = (ref \<noteq> [] \<and> take (length ref) (fst c) = ref)"

definition docker_stop :: "string list \<Rightarrow> sim \<Rightarrow> (string \<times> error option) \<times> sim" where
  "docker_stop refs w =
     (if refs = [] then (('''', Some ''exit status 1''), w)
      else
        ((concat (map (\<lambda>r. r @ nl) (filter (\<lambda>r. list_ex (named_by r) (live w)) refs)),
          (if list_all (\<lambda>r. list_ex (named_by r) (live w)) refs then None
           else Some ''exit status 1'')),
         w\<lparr>live := filter (\<lambda>c. \<not> list_ex (\<lambda>r. named_by r c) refs) (live w)\<rparr>))"

definition docker_run :: "string \<Rightarrow> sim \<Rightarrow> (string \<times> error option) \<times> sim" where
  "docker_run tag w =
     (case new_ids w of
        [] \<Rightarrow> (('''', Some ''exit status 125''), w)
      | cid # rest \<Rightarrow> ((cid @ nl, None), w\<lparr>live := live w @ [(cid, tag)], new_ids := rest\<rparr>))"

definition sim_run_Cmd :: "Cmd \<Rightarrow> sim \<Rightarrow> (string \<times> error option) \<times> sim" where
  "sim_run_Cmd cmd w =
     (let argv = Args cmd in
      if take 1 argv = [''make''] then (('''', None), w)
      else if take 4 argv = [''docker'', ''ps'', ''-q'', ''--filter''] \<and> length argv = 5
              \<and> take 9 (argv ! 4) = ''ancestor=''
        then ((docker_ps (drop 9 (argv ! 4)) w, None), w)
      else if take 2 argv = [''docker'', ''stop''] then docker_stop (drop 2 argv) w
      else if take 2 argv = [''docker'', ''kill''] then docker_stop (drop 2 argv) w
      else if take 3 argv = [''docker'', ''run'', ''-d''] \<and> argv \<noteq> [] then docker_run (last argv) w
      else (('''', Some ''exit status 1''), w))"

definition sim_http_Get :: "string \<Rightarrow> sim \<Rightarrow> (Response option \<times> error option) \<times> sim" where
  "sim_http_Get url w =
     (case health w of
        [] \<Rightarrow> ((None, Some ''connection refused''), w)
      | h # hs \<Rightarrow> (h, w\<lparr>health := hs\<rparr>))"

definition sim_new_client :: "sim \<Rightarrow> (nat option \<times> error option) \<times> sim" where
  "sim_new_client w = ((Some (clients w), None), w\<lparr>clients := clients w + 1\<rparr>)"

definition sim_Initialize ::
  "nat \<Rightarrow> InitializeRequest \<Rightarrow> sim \<Rightarrow> (InitializeResult option \<times> error option) \<times> sim" where
  "sim_Initialize c request w =
     (if List.member (refused w) c then ((None, Some ''connection refused''), w)
      else ((Some \<lparr>ServerInfo = \<lparr>Name = ''terraform-mcp-server'', Version = ''test-e2e''\<rparr>\<rparr>,
             None), w))"

definition sim_CallTool ::
  "nat \<Rightarrow> CallToolRequest \<Rightarrow> sim \<Rightarrow> (CallToolResult option \<times> error option) \<times> sim" where
  "sim_CallTool c request w = ((Some \<lparr>Content = [], IsError = False\<rparr>, None), w)"

definition sim_env :: "(string \<rightharpoonup> string) \<Rightarrow> sim env" where
  "sim_env vars =
     \<lparr>environ = vars,
      LATEST_PROTOCOL_VERSION = ''2025-03-26'',
      run_Cmd = sim_run_Cmd,
      http_Get = sim_http_Get,
      NewStdioMCPClient = (\<lambda>command envs args. sim_new_client),
      NewStreamableHttpClient = (\<lambda>url. sim_new_client),
      Initialize = sim_Initialize,
      CallTool = sim_CallTool,
      Close = (\<lambda>c w. w)\<rparr>"

text \<open>Two container identifiers, a ready health endpoint, and small inputs.\<close>

definition id_a :: string where
  "id_a = ''a1b2c3d4e5f60718293a4b5c6d7e8f90a1b2c3d4e5f60718293a4b5c6d7e8f90''"

definition id_b :: string where
  "id_b = ''0f1e2d3c4b5a69788796a5b4c3d2e1f00f1e2d3c4b5a69788796a5b4c3d2e1f0''"

definition ok200 :: "Response option \<times> error option" where
  "ok200 = (Some \<lparr>StatusCode = 200, Body = 0\<rparr>, None)"

definition idle :: sim where
  "idle = \<lparr>live = [], new_ids = [id_a], health = [ok200], clients = 0, refused = []\<rparr>"

definition K0 :: content_types where
  "K0 = \<lparr>CONST_TYPE_DATA_SOURCE = ''data-sources'', CONST_TYPE_RESOURCE = ''resources'',
         CONST_TYPE_GUIDES = ''guides'', CONST_TYPE_FUNCTIONS = ''functions''\<rparr>"

definition case0 :: TestCase where
  "case0 = \<lparr>TestName = ''valid_query'', TestDescription = ''Testing with a valid module query'',
            TestPayload = AObject [(''module_query'', AString ''vpc'')],
            TestShouldFail = False, TestContentType = ''''\<rparr>"

definition T0 :: tables where
  "T0 = \<lparr>providerTestCases = [], providerDocsTestCases = [],
         searchModulesTestCases = [case0], moduleDetailsTestCases = []\<rparr>"

section \<open>Reading a trace\<close>

text \<open>The commands run, in order.\<close>

definition commands :: "event list \<Rightarrow> Cmd list" where
  "commands evs = concat (map (\<lambda>e. case e of Exec c \<Rightarrow> [c] | _ \<Rightarrow> []) evs)"

text \<open>
  The health endpoint as the poller sees it: the world after \<open>n\<close> requests to \<open>url\<close>,
  and the outcome of request number \<open>n\<close> (from 0).
\<close>

primrec world_after :: "'w env \<Rightarrow> string \<Rightarrow> nat \<Rightarrow> 'w \<Rightarrow> 'w" where
  "world_after env url 0 w = w"
| "world_after env url (Suc n) w = world_after env url n (snd (http_Get env url w))"

definition outcome :: "'w env \<Rightarrow> string \<Rightarrow> 'w \<Rightarrow> nat \<Rightarrow> Response option \<times> error option" where
  "outcome env url w n = fst (http_Get env url (world_after env url n w))"

text \<open>
  An outcome is ready when it is a response with status 200 and no error. The HTTP
  client never returns a nil response with a nil error; an outcome is well formed when
  it is not that pair.
\<close>

definition ready :: "Response option \<times> error option \<Rightarrow> bool" where
  "ready out = (case out of (Some r, None) \<Rightarrow> StatusCode r = 200 | _ \<Rightarrow> False)"

definition well_formed :: "Response option \<times> error option \<Rightarrow> bool" where
  "well_formed out = (out \<noteq> (None, None))"

text \<open>What one attempt of the poller leaves in the trace, before \<open>after\<close>.\<close>

definition attempt :: "string \<Rightarrow> Response option \<times> error option \<Rightarrow> event \<Rightarrow> event list" where
  "attempt url out after = HttpGet url # close_body (fst out) @ [after]"

text \<open>Inputs of the theorems evaluated below.\<close>

definition two_live :: sim where
  "two_live = idle\<lparr>live := [(id_a, ''terraform-mcp-server:test-e2e''),
                             (id_b, ''terraform-mcp-server:test-e2e'')]\<rparr>"

definition flaky :: sim where
  "flaky = idle\<lparr>health := [(None, Some ''connection refused''),
                            (Some \<lparr>StatusCode = 503, Body = 1\<rparr>, None),
                            (Some \<lparr>StatusCode = 204, Body = 2\<rparr>, None),
                            (Some \<lparr>StatusCode = 200, Body = 3\<rparr>, None)]\<rparr>"

definition failing_case :: TestCase where
  "failing_case = case0\<lparr>TestName := ''missing_query'', TestShouldFail := True\<rparr>"

definition text_then_image :: CallToolResult where
  "text_then_image =
     \<lparr>Content = [TextContent ''modules'', ImageContent ''iVBORw0KGgo='' ''image/png''],
      IsError = False\<rparr>"

definition one_text :: CallToolResult where
  "one_text = \<lparr>Content = [TextContent ''page_title: aws_instance''], IsError = False\<rparr>"

text \<open>The poller in closed form, for a budget of \<open>n\<close> attempts.\<close>

definition polled :: "'w env \<Rightarrow> string \<Rightarrow> nat \<Rightarrow> ('w, unit) prog" where
  "polled env url n s =
     (case find (\<lambda>j. ready (outcome env url (world s) j)) [0..<n] of
        Some k \<Rightarrow>
          (Inr (),
           s\<lparr>world := world_after env url (Suc k) (world s),
             trace := trace s @
               concat (map (\<lambda>j. attempt url (outcome env url (world s) j) (Sleep 1)) [0..<k]) @
               attempt url (outcome env url (world s) k) (Log ''HTTP server is ready'')\<rparr>)
      | None \<Rightarrow>
          (Inl FailNow,
           s\<lparr>world := world_after env url n (world s),
             trace := trace s @
               concat (map (\<lambda>j. attempt url (outcome env url (world s) j) (Sleep 1)) [0..<n]) @
               [Log ''HTTP server failed to start within 30 seconds''],
             failed := True\<rparr>))"

text \<open>The names of the tests started, in order.\<close>

definition started :: "event list \<Rightarrow> string list" where
  "started evs = concat (map (\<lambda>e. case e of Run name \<Rightarrow> [name] | _ \<Rightarrow> []) evs)"

text \<open>The launch command of \<^verbatim>\<open>startHTTPContainer\<close> for a host port.\<close>

definition docker_run_http :: "string \<Rightarrow> Cmd" where
  "docker_run_http port =
     exec_Command [''docker'', ''run'', ''-d'', ''--rm'', ''-e'', ''MODE=http'', ''-p'',
                   port @ '':8080'', ''terraform-mcp-server:test-e2e'']"

text \<open>
  The environment variables with \<^verbatim>\<open>E2E_TEST_PORT=9191\<close>; a world in which every command
  succeeds and prints nothing; a registry that cannot be reached.
\<close>

definition port_9191 :: "string \<rightharpoonup> string" where
  "port_9191 = [''E2E_TEST_PORT'' \<mapsto> ''9191'']"

definition mute :: "sim env" where
  "mute = (sim_env Map.empty)\<lparr>run_Cmd := (\<lambda>cmd w. (('''', None), w))\<rparr>"

text \<open>
  The runtime once the container \<open>id_a\<close> of the test image has been started; and a
  world with \<^verbatim>\<open>E2E_TEST_PORT=9191\<close> that answers at port 9191 only: any launch command
  but the one publishing \<open>9191:8080\<close>, any request but to
  \<open>http://localhost:9191/health\<close> and any endpoint but \<open>http://localhost:9191/mcp\<close>
  fails.
\<close>

definition launched :: sim where
  "launched = idle\<lparr>live := [(id_a, ''terraform-mcp-server:test-e2e'')], new_ids := []\<rparr>"

definition picky :: "sim env" where
  "picky =
     (sim_env port_9191)
       \<lparr>run_Cmd := (\<lambda>cmd w. if cmd = docker_run_http ''9191'' then sim_run_Cmd cmd w
                            else (('''', Some ''exit status 125''), w)),
        http_Get := (\<lambda>url w. if url = ''http://localhost:9191/health'' then sim_http_Get url w
                             else ((None, Some ''connection refused''), w)),
        NewStreamableHttpClient :=
          (\<lambda>url w. if url = ''http://localhost:9191/mcp'' then sim_new_client w
                    else ((None, Some ''connection refused''), w))\<rparr>"

definition no_registry :: registry where
  "no_registry =
     \<lparr>SendRegistryCall = (\<lambda>method uri version. ('''', Some ''no route to host'')),
      json_Unmarshal = (\<lambda>body. (\<lparr>Data_Attributes_Readme = '''', Included = []\<rparr>,
                                 Some ''unexpected end of JSON input'')),
      ExtractReadme = (\<lambda>readme. readme)\<rparr>"

definition request_of :: "(string \<times> any) list \<Rightarrow> CallToolRequest" where
  "request_of args = \<lparr>ToolName = ''policy_details'', Arguments = AObject args\<rparr>"

section \<open>Properties\<close>

subsection \<open>The combinators\<close>

lemmas prog_defs = ret_def bnd_def seq_def emit_def panic_def t_Log_def t_Fatal_def require_def
  cmd_Output_def cmd_Run_def deref_def index0_def

lemma commands_simps [simp]:
  "commands [] = []"
  "commands (Exec c # evs) = c # commands evs"
  "commands (Log m # evs) = commands evs"
  "commands (evs @ evs') = commands evs @ commands evs'"
  by (simp_all add: commands_def)

subsection \<open>Stopping a container\<close>








subsection \<open>The sweep\<close>

lemma cleanupAllTestContainers_returns: "fst (cleanupAllTestContainers env s) = Inr ()"
  by (simp add: cleanupAllTestContainers_def prog_defs split: prod.splits option.splits)

lemma cleanupAllTestContainers_failed:
  "failed (snd (cleanupAllTestContainers env s)) = failed s"
  by (simp add: cleanupAllTestContainers_def prog_defs split: prod.splits option.splits)

text \<open>
  In every world the sweep runs the listing and at most one more command, and that
  command is \<^verbatim>\<open>docker stop\<close> with no argument: no container is named on a command line.
\<close>

lemma cleanupAllTestContainers_commands:
  "list_all (\<lambda>c. Args c = [''docker'', ''ps'', ''-q'', ''--filter'',
                           ''ancestor=terraform-mcp-server:test-e2e'']
                \<or> Args c = [''docker'', ''stop''])
     (drop (length (commands (trace s))) (commands (trace (snd (cleanupAllTestContainers env s)))))"
  by (simp add: cleanupAllTestContainers_def prog_defs exec_Command_def
      split: prod.splits option.splits)

text \<open>
  In every world, a listing that fails or is empty ends the sweep: a warning for the
  failure, a plain line for the empty listing, no other command, and the sweep returns.
\<close>

lemma cleanupAllTestContainers_nothing_to_stop:
  assumes "run_Cmd env (exec_Command [''docker'', ''ps'', ''-q'', ''--filter'',
                                      ''ancestor=terraform-mcp-server:test-e2e''])
             (world s) = ((output, err), w)"
    and "err \<noteq> None \<or> output = ''''"
  shows "cleanupAllTestContainers env s =
     (Inr (),
      s\<lparr>world := w,
        trace := trace s @
          [Log ''Cleaning up all test containers...'',
           Exec (exec_Command [''docker'', ''ps'', ''-q'', ''--filter'',
                               ''ancestor=terraform-mcp-server:test-e2e'']),
           Log (case err of
                  Some e \<Rightarrow> ''Warning: failed to list test containers: '' @ e
                | None \<Rightarrow> ''No test containers found to cleanup'')]\<rparr>)"
  using assms
  by (auto simp: cleanupAllTestContainers_def prog_defs split: option.splits)

text \<open>
  Claim C2, on a runtime with two running containers of the test image: the sweep
  lists both, runs \<^verbatim>\<open>docker stop\<close> without an argument and with the listing on its
  standard input, logs the failure of that command as a warning and returns; both
  containers are still running.
\<close>

theorem sweep_stops_nothing:
  "fst (cleanupAllTestContainers (sim_env Map.empty) (start two_live)) = Inr ()
   \<and> commands (trace (snd (cleanupAllTestContainers (sim_env Map.empty) (start two_live)))) =
       [exec_Command [''docker'', ''ps'', ''-q'', ''--filter'',
                      ''ancestor=terraform-mcp-server:test-e2e''],
        (exec_Command [''docker'', ''stop''])\<lparr>Stdin := ''a1b2c3d4e5f6'' @ nl @ ''0f1e2d3c4b5a'' @ nl\<rparr>]
   \<and> last (trace (snd (cleanupAllTestContainers (sim_env Map.empty) (start two_live)))) =
       Log ''Warning: failed to stop some test containers: exit status 1''
   \<and> live (world (snd (cleanupAllTestContainers (sim_env Map.empty) (start two_live)))) =
       [(id_a, ''terraform-mcp-server:test-e2e''), (id_b, ''terraform-mcp-server:test-e2e'')]"
  by code_simp

subsection \<open>The readiness poller\<close>

lemma upt_0_Suc: "[0..<Suc m] = 0 # map Suc [0..<m]"
proof -
  have "[0..<Suc m] = 0 # [Suc 0..<Suc m]"
    by (rule upt_conv_Cons) simp
  also have "[Suc 0..<Suc m] = map Suc [0..<m]"
    by (rule map_Suc_upt [symmetric])
  finally show ?thesis .
qed

lemma find_map_comp: "find P (map f xs) = map_option f (find (\<lambda>x. P (f x)) xs)"
  by (induction xs) simp_all

lemma outcome_0: "outcome env url w 0 = fst (http_Get env url w)"
  by (simp add: outcome_def)

lemma outcome_Suc: "outcome env url w (Suc n) = outcome env url (snd (http_Get env url w)) n"
  by (simp add: outcome_def)

lemma is_ready_ready:
  "well_formed (resp, err) \<Longrightarrow> is_ready resp err = Inr (ready (resp, err))"
  by (auto simp: well_formed_def is_ready_def ready_def split: option.splits)

lemma polled_0: "polled env url 0 s = t_Fatal ''HTTP server failed to start within 30 seconds'' s"
  by (simp add: polled_def t_Fatal_def)

lemma polled_Suc:
  "polled env url (Suc m) s =
     (case http_Get env url (world s) of
        (out, w) \<Rightarrow>
          if ready out then
            (Inr (), s\<lparr>world := w, trace := trace s @ attempt url out (Log ''HTTP server is ready'')\<rparr>)
          else
            polled env url m (s\<lparr>world := w, trace := trace s @ attempt url out (Sleep 1)\<rparr>))"
  by (simp add: polled_def upt_0_Suc find_map_comp outcome_0 outcome_Suc comp_def
      split: prod.splits option.splits del: upt_Suc)

lemma waitForServer_from_polled:
  "i \<le> 30 \<Longrightarrow>
   list_all (\<lambda>j. well_formed (outcome env (baseURL @ ''/health'') (world s) j)) [0..<30 - i] \<Longrightarrow>
   waitForServer_from env baseURL i s = polled env (baseURL @ ''/health'') (30 - i) s"
proof (induction "30 - i" arbitrary: i s)
  case 0
  then have "i = 30" by simp
  then show ?case by (subst waitForServer_from.simps) (simp add: polled_0)
next
  case (Suc m)
  then have i: "i < 30" and m: "m = 30 - (i + 1)" and r: "30 - i = Suc m" by simp_all
  obtain resp err w where g: "http_Get env (baseURL @ ''/health'') (world s) = ((resp, err), w)"
    by (metis prod.exhaust)
  from Suc.prems(2) r g have wf0: "well_formed (resp, err)"
    and wfs: "list_all (\<lambda>j. well_formed (outcome env (baseURL @ ''/health'') w j)) [0..<m]"
    by (simp_all add: upt_0_Suc list.pred_map comp_def outcome_0 outcome_Suc del: upt_Suc)
  show ?case
  proof (cases "ready (resp, err)")
    case True
    with i g wf0 r show ?thesis
      by (subst waitForServer_from.simps) (simp add: client_Get_def is_ready_ready polled_Suc attempt_def)
  next
    case False
    let ?s1 = "s\<lparr>world := w, trace := trace s @ attempt (baseURL @ ''/health'') (resp, err) (Sleep 1)\<rparr>"
    have "waitForServer_from env baseURL (i + 1) ?s1 = polled env (baseURL @ ''/health'') (30 - (i + 1)) ?s1"
      using Suc.hyps(1) [of "i + 1" ?s1] m i wfs by simp
    with False i g wf0 r m show ?thesis
      by (subst waitForServer_from.simps) (simp add: client_Get_def is_ready_ready polled_Suc attempt_def)
  qed
qed

text \<open>
  Claim C7. Take any health endpoint whose next 30 outcomes are well formed (a response,
  an error, or both). Then \<^verbatim>\<open>waitForServer\<close> is decided by the first of the 30 requests
  answered with status 200 and no error:
  \<^item> when request number \<open>k\<close> is the first such, the call returns; it has sent \<open>k + 1\<close>
    requests to \<open>baseURL + "/health"\<close>, closed the body of every response it received,
    the last one included, slept one second after each of the first \<open>k\<close>, and nothing
    follows the last one but the log line;
  \<^item> when there is none, it has sent 30 requests, closed every body it received, slept
    one second after each, and ends the calling test through \<^verbatim>\<open>t.Fatal\<close>.
\<close>

theorem waitForServer_first_ready:
  assumes "list_all (\<lambda>j. well_formed (outcome env (baseURL @ ''/health'') (world s) j)) [0..<30]"
  shows "waitForServer env baseURL s =
     (case find (\<lambda>j. ready (outcome env (baseURL @ ''/health'') (world s) j)) [0..<30] of
        Some k \<Rightarrow>
          (Inr (),
           s\<lparr>world := world_after env (baseURL @ ''/health'') (Suc k) (world s),
             trace := trace s @
               concat (map (\<lambda>j. attempt (baseURL @ ''/health'')
                                   (outcome env (baseURL @ ''/health'') (world s) j) (Sleep 1)) [0..<k]) @
               attempt (baseURL @ ''/health'') (outcome env (baseURL @ ''/health'') (world s) k)
                 (Log ''HTTP server is ready'')\<rparr>)
      | None \<Rightarrow>
          (Inl FailNow,
           s\<lparr>world := world_after env (baseURL @ ''/health'') 30 (world s),
             trace := trace s @
               concat (map (\<lambda>j. attempt (baseURL @ ''/health'')
                                   (outcome env (baseURL @ ''/health'') (world s) j) (Sleep 1)) [0..<30]) @
               [Log ''HTTP server failed to start within 30 seconds''],
             failed := True\<rparr>))"
  using waitForServer_from_polled [of 0 env baseURL s] assms
  by (simp add: waitForServer_def polled_def)

text \<open>
  The theorem at an endpoint that refuses the first connection and then answers 503,
  204 and 200: four requests, three bodies closed, three sleeps.
\<close>

theorem waitForServer_first_ready_witness:
  "list_all (\<lambda>j. well_formed (outcome (sim_env Map.empty) (''http://localhost:8080'' @ ''/health'')
                                 (world (start flaky)) j)) [0..<30]
   \<and> waitForServer (sim_env Map.empty) ''http://localhost:8080'' (start flaky) =
       (Inr (),
        \<lparr>world = flaky\<lparr>health := []\<rparr>,
         trace = [HttpGet ''http://localhost:8080/health'', Sleep 1,
                  HttpGet ''http://localhost:8080/health'', BodyClose 1, Sleep 1,
                  HttpGet ''http://localhost:8080/health'', BodyClose 2, Sleep 1,
                  HttpGet ''http://localhost:8080/health'', BodyClose 3,
                  Log ''HTTP server is ready''],
         cleanups = [], failed = False\<rparr>)"
proof -
  have wf: "list_all (\<lambda>j. well_formed (outcome (sim_env Map.empty)
              (''http://localhost:8080'' @ ''/health'') (world (start flaky)) j)) [0..<30]"
    by code_simp
  have "(case find (\<lambda>j. ready (outcome (sim_env Map.empty) (''http://localhost:8080'' @ ''/health'')
                                  (world (start flaky)) j)) [0..<30] of
        Some k \<Rightarrow>
          (Inr (),
           (start flaky)\<lparr>world := world_after (sim_env Map.empty) (''http://localhost:8080'' @ ''/health'')
                                   (Suc k) (world (start flaky)),
             trace := trace (start flaky) @
               concat (map (\<lambda>j. attempt (''http://localhost:8080'' @ ''/health'')
                                   (outcome (sim_env Map.empty) (''http://localhost:8080'' @ ''/health'')
                                      (world (start flaky)) j) (Sleep 1)) [0..<k]) @
               attempt (''http://localhost:8080'' @ ''/health'')
                 (outcome (sim_env Map.empty) (''http://localhost:8080'' @ ''/health'')
                    (world (start flaky)) k)
                 (Log ''HTTP server is ready'')\<rparr>)
      | None \<Rightarrow>
          (Inl FailNow,
           (start flaky)\<lparr>world := world_after (sim_env Map.empty) (''http://localhost:8080'' @ ''/health'')
                                   30 (world (start flaky)),
             trace := trace (start flaky) @
               concat (map (\<lambda>j. attempt (''http://localhost:8080'' @ ''/health'')
                                   (outcome (sim_env Map.empty) (''http://localhost:8080'' @ ''/health'')
                                      (world (start flaky)) j) (Sleep 1)) [0..<30]) @
               [Log ''HTTP server failed to start within 30 seconds''],
             failed := True\<rparr>)) =
       (Inr (),
        \<lparr>world = flaky\<lparr>health := []\<rparr>,
         trace = [HttpGet ''http://localhost:8080/health'', Sleep 1,
                  HttpGet ''http://localhost:8080/health'', BodyClose 1, Sleep 1,
                  HttpGet ''http://localhost:8080/health'', BodyClose 2, Sleep 1,
                  HttpGet ''http://localhost:8080/health'', BodyClose 3,
                  Log ''HTTP server is ready''],
         cleanups = [], failed = False\<rparr>)"
    by code_simp
  with waitForServer_first_ready [OF wf] wf show ?thesis
    by simp
qed

subsection \<open>The HTTP factory and the test port\<close>

lemma getTestPort_environ:
  "getTestPort env =
     (case environ env ''E2E_TEST_PORT'' of
        None \<Rightarrow> ''8080''
      | Some port \<Rightarrow> if port \<noteq> '''' then port else ''8080'')"
  by (simp add: getTestPort_def os_Getenv_def split: option.splits)

lemma startHTTPContainer_started:
  assumes "run_Cmd env (docker_run_http port) (world s) = ((output, None), w1)"
    and "12 \<le> length output"
  shows "startHTTPContainer env port s =
     (Inr (take 12 output),
      s\<lparr>world := w1,
        trace := trace s @
          [Exec (docker_run_http port),
           Log (''Started HTTP container: '' @ take 12 output @ '' on port '' @ port)]\<rparr>)"
  using assms
  by (simp add: startHTTPContainer_def prog_defs slice_to_def Let_def docker_run_http_def)

text \<open>
  Claim C8. Let \<open>port\<close> be the value of \<^verbatim>\<open>E2E_TEST_PORT\<close> when the variable is set and
  not empty, and \<open>8080\<close> otherwise. In every world where the launch command with
  \<open>port:8080\<close> published succeeds with an identifier, and the health endpoint is well
  formed, \<^verbatim>\<open>createHTTPClient\<close> is what the outside world answers at that port and
  nowhere else:
  \<^item> the world is polled through requests to \<open>http://localhost:port/health\<close> only,
    until the first ready outcome;
  \<^item> the client returned, the error and the world left are those of
    \<^verbatim>\<open>NewStreamableHttpClient\<close> called with \<open>http://localhost:port/mcp\<close> in the world
    after the last health request;
  \<^item> when no outcome of the 30 is ready, the calling test fails and no client is made.
  The trace, the registered cleanup and the failed flag are given with it.
\<close>

theorem createHTTPClient_uses_test_port:
  assumes port: "port = (case environ env ''E2E_TEST_PORT'' of
                           None \<Rightarrow> ''8080''
                         | Some v \<Rightarrow> if v \<noteq> '''' then v else ''8080'')"
    and launch: "run_Cmd env (docker_run_http port) (world s) = ((output, None), w1)"
    and long: "12 \<le> length output"
    and wf: "list_all (\<lambda>j. well_formed (outcome env (''http://localhost:'' @ port @ ''/health'') w1 j))
               [0..<30]"
  shows "getTestPort env = port
    \<and> createHTTPClient env s =
       (case find (\<lambda>j. ready (outcome env (''http://localhost:'' @ port @ ''/health'') w1 j)) [0..<30] of
          None \<Rightarrow>
            (Inl FailNow,
             s\<lparr>world := world_after env (''http://localhost:'' @ port @ ''/health'') 30 w1,
               trace := trace s @
                 [Log ''Starting HTTP MCP server...'', Exec (docker_run_http port),
                  Log (''Started HTTP container: '' @ take 12 output @ '' on port '' @ port)] @
                 concat (map (\<lambda>j. attempt (''http://localhost:'' @ port @ ''/health'')
                                     (outcome env (''http://localhost:'' @ port @ ''/health'') w1 j)
                                     (Sleep 1)) [0..<30]) @
                 [Log ''HTTP server failed to start within 30 seconds''],
               cleanups := StopCleanup (take 12 output) # cleanups s,
               failed := True\<rparr>)
        | Some k \<Rightarrow>
            (case NewStreamableHttpClient env (''http://localhost:'' @ port @ ''/mcp'')
                    (world_after env (''http://localhost:'' @ port @ ''/health'') (Suc k) w1) of
               ((client, err), w2) \<Rightarrow>
                 (if err = None then Inr (client, HTTPClose client) else Inl FailNow,
                  s\<lparr>world := w2,
                    trace := trace s @
                      [Log ''Starting HTTP MCP server...'', Exec (docker_run_http port),
                       Log (''Started HTTP container: '' @ take 12 output @ '' on port '' @ port)] @
                      concat (map (\<lambda>j. attempt (''http://localhost:'' @ port @ ''/health'')
                                          (outcome env (''http://localhost:'' @ port @ ''/health'') w1 j)
                                          (Sleep 1)) [0..<k]) @
                      attempt (''http://localhost:'' @ port @ ''/health'')
                        (outcome env (''http://localhost:'' @ port @ ''/health'') w1 k)
                        (Log ''HTTP server is ready'') @
                      [NewHttpClient (''http://localhost:'' @ port @ ''/mcp'')] @
                      (if err = None then []
                       else [Log ''expected to create HTTP client successfully'']),
                    cleanups := StopCleanup (take 12 output) # cleanups s,
                    failed := (if err = None then failed s else True)\<rparr>)))"
proof -
  have p: "getTestPort env = port"
    using port by (simp add: getTestPort_environ)
  let ?s0 = "s\<lparr>trace := trace s @ [Log ''Starting HTTP MCP server...'']\<rparr>"
  let ?s2 = "s\<lparr>world := w1,
               trace := trace s @
                 [Log ''Starting HTTP MCP server...'', Exec (docker_run_http port),
                  Log (''Started HTTP container: '' @ take 12 output @ '' on port '' @ port)],
               cleanups := StopCleanup (take 12 output) # cleanups s\<rparr>"
  have started: "startHTTPContainer env port ?s0 =
     (Inr (take 12 output),
      ?s0\<lparr>world := w1,
          trace := trace ?s0 @
            [Exec (docker_run_http port),
             Log (''Started HTTP container: '' @ take 12 output @ '' on port '' @ port)]\<rparr>)"
    using launch long by (intro startHTTPContainer_started) simp_all
  have waited: "waitForServer_from env (''http://localhost:'' @ port) 0 ?s2 =
     polled env ((''http://localhost:'' @ port) @ ''/health'') (30 - 0) ?s2"
    using wf by (intro waitForServer_from_polled) simp_all
  show ?thesis
  proof (cases "find (\<lambda>j. ready (outcome env (''http://localhost:'' @ port @ ''/health'') w1 j)) [0..<30]")
    case None
    with p started waited show ?thesis
      by (simp add: createHTTPClient_def prog_defs Let_def t_Cleanup_def waitForServer_def polled_def)
  next
    case (Some k)
    with p started waited show ?thesis
      by (simp add: createHTTPClient_def prog_defs Let_def t_Cleanup_def waitForServer_def polled_def
          mcpClient_NewStreamableHttpClient_def split: prod.splits)
  qed
qed

text \<open>
  The theorem with \<^verbatim>\<open>E2E_TEST_PORT=9191\<close>, in a world that answers at port 9191 only:
  the launch command must publish \<open>9191:8080\<close>, the health endpoint is
  \<open>http://localhost:9191/health\<close> and the protocol endpoint
  \<open>http://localhost:9191/mcp\<close>; any other command or URL fails. The factory returns the
  client of that endpoint.
\<close>

theorem createHTTPClient_uses_test_port_witness:
  "(case environ picky ''E2E_TEST_PORT'' of
      None \<Rightarrow> ''8080''
    | Some v \<Rightarrow> if v \<noteq> '''' then v else ''8080'') = ''9191''
   \<and> run_Cmd picky (docker_run_http ''9191'') (world (start idle)) = ((id_a @ nl, None), launched)
   \<and> 12 \<le> length (id_a @ nl)
   \<and> list_all (\<lambda>j. well_formed (outcome picky (''http://localhost:'' @ ''9191'' @ ''/health'') launched j))
        [0..<30]
   \<and> getTestPort picky = ''9191''
   \<and> createHTTPClient picky (start idle) =
       (Inr (Some 0, HTTPClose (Some 0)),
        \<lparr>world = launched\<lparr>health := [], clients := 1\<rparr>,
         trace = [Log ''Starting HTTP MCP server...'',
                  Exec (docker_run_http ''9191''),
                  Log ''Started HTTP container: a1b2c3d4e5f6 on port 9191'',
                  HttpGet ''http://localhost:9191/health'', BodyClose 0,
                  Log ''HTTP server is ready'',
                  NewHttpClient ''http://localhost:9191/mcp''],
         cleanups = [StopCleanup ''a1b2c3d4e5f6''], failed = False\<rparr>)"
proof -
  have p: "''9191'' = (case environ picky ''E2E_TEST_PORT'' of
                         None \<Rightarrow> ''8080''
                       | Some v \<Rightarrow> if v \<noteq> '''' then v else ''8080'')"
    by (simp add: picky_def sim_env_def port_9191_def)
  have l: "run_Cmd picky (docker_run_http ''9191'') (world (start idle)) = ((id_a @ nl, None), launched)"
    by code_simp
  have g: "12 \<le> length (id_a @ nl)"
    by (simp add: id_a_def)
  have wf: "list_all (\<lambda>j. well_formed (outcome picky (''http://localhost:'' @ ''9191'' @ ''/health'') launched j))
              [0..<30]"
    by code_simp
  have f: "find (\<lambda>j. ready (outcome picky (''http://localhost:'' @ ''9191'' @ ''/health'') launched j))
             [0..<30] = Some 0"
    by code_simp
  have o: "outcome picky ''http://localhost:9191/health'' launched 0 =
             (Some \<lparr>StatusCode = 200, Body = 0\<rparr>, None)"
    by code_simp
  have w: "snd (http_Get picky ''http://localhost:9191/health'' launched) =
             launched\<lparr>health := []\<rparr>"
    by code_simp
  have d: "NewStreamableHttpClient picky ''http://localhost:9191/mcp''
             (launched\<lparr>health := []\<rparr>) = ((Some 0, None), launched\<lparr>health := [], clients := 1\<rparr>)"
    by code_simp
  have t: "take 12 (id_a @ nl) = ''a1b2c3d4e5f6''"
    by (simp add: id_a_def)
  from createHTTPClient_uses_test_port [OF p l g wf]
  have "getTestPort picky = ''9191''"
    and "createHTTPClient picky (start idle) =
       (Inr (Some 0, HTTPClose (Some 0)),
        \<lparr>world = launched\<lparr>health := [], clients := 1\<rparr>,
         trace = [Log ''Starting HTTP MCP server...'',
                  Exec (docker_run_http ''9191''),
                  Log ''Started HTTP container: a1b2c3d4e5f6 on port 9191'',
                  HttpGet ''http://localhost:9191/health'', BodyClose 0,
                  Log ''HTTP server is ready'',
                  NewHttpClient ''http://localhost:9191/mcp''],
         cleanups = [StopCleanup ''a1b2c3d4e5f6''], failed = False\<rparr>)"
    unfolding f t by (simp_all add: o w d attempt_def close_body_def start_def)
  with p l g wf show ?thesis
    by simp
qed

subsection \<open>The assertions on a tool response\<close>

text \<open>
  Claim C5. For a test case flagged expected-failure, in each of the four tables, what
  the runner does with the outcome of the tool call depends on the error alone: with a
  non-nil error it logs the error and the sub-test goes on to its end, with a nil error
  the sub-test fails at \<^verbatim>\<open>require.Error\<close>. The response is not looked at.
\<close>

theorem expected_failure_checks_error_only:
  assumes "TestShouldFail testCase"
  shows "resolveProviderDocID_assert K testCase response err s =
           (if err \<noteq> None
            then (Inr (), s\<lparr>trace := trace s @ [Log (''Error: '' @ show_error err)]\<rparr>)
            else t_Fatal ''expected to call resolveProviderDocID tool with error'' s)
       \<and> getProviderDocs_assert testCase response err s =
           (if err \<noteq> None
            then (Inr (), s\<lparr>trace := trace s @ [Log (''Error: '' @ show_error err)]\<rparr>)
            else t_Fatal ''expected to call getProviderDocs tool with error'' s)
       \<and> searchModules_assert testCase response err s =
           (if err \<noteq> None
            then (Inr (), s\<lparr>trace := trace s @ [Log (''Error: '' @ show_error err)]\<rparr>)
            else t_Fatal ''expected to call searchModules tool with error'' s)
       \<and> moduleDetails_assert K testCase response err s =
           (if err \<noteq> None
            then (Inr (), s\<lparr>trace := trace s @ [Log (''Error: '' @ show_error err)]\<rparr>)
            else t_Fatal ''expected to call moduleDetails tool with error'' s)"
  using assms
  by (simp add: resolveProviderDocID_assert_def getProviderDocs_assert_def
      searchModules_assert_def moduleDetails_assert_def prog_defs)

text \<open>
  The theorem at an expected-failure case: a tool error passes whatever the response,
  and a well-shaped response without an error fails the sub-test.
\<close>

theorem expected_failure_checks_error_only_witness:
  "TestShouldFail failing_case
   \<and> fst (moduleDetails_assert K0 failing_case (Some text_then_image) (Some ''tool error'')
            (start idle)) = Inr ()
   \<and> fst (getProviderDocs_assert failing_case (Some one_text) None (start idle)) = Inl FailNow"
proof -
  have f: "TestShouldFail failing_case"
    by (simp add: failing_case_def)
  from expected_failure_checks_error_only [OF f, of K0 "Some text_then_image" "Some ''tool error''" "start idle"]
    expected_failure_checks_error_only [OF f, of K0 "Some one_text" None "start idle"]
  show ?thesis
    using f by (simp add: t_Fatal_def)
qed

lemma resolveProviderDocID_accepts:
  "\<not> TestShouldFail testCase \<Longrightarrow>
   fst (resolveProviderDocID_assert K testCase response err s) = Inr () \<Longrightarrow>
   err = None \<and> (\<exists>r text. response = Some r \<and> \<not> IsError r \<and> Content r = [TextContent text])"
  by (auto simp: resolveProviderDocID_assert_def prog_defs as_TextContent_def
      split: if_splits option.splits list.splits Content.splits)

lemma getProviderDocs_accepts:
  "\<not> TestShouldFail testCase \<Longrightarrow>
   fst (getProviderDocs_assert testCase response err s) = Inr () \<Longrightarrow>
   err = None \<and> (\<exists>r text. response = Some r \<and> \<not> IsError r \<and> Content r = [TextContent text])"
  by (auto simp: getProviderDocs_assert_def prog_defs as_TextContent_def
      split: if_splits option.splits list.splits Content.splits)

lemma moduleDetails_accepts:
  "\<not> TestShouldFail testCase \<Longrightarrow>
   fst (moduleDetails_assert K testCase response err s) = Inr () \<Longrightarrow>
   err = None \<and> (\<exists>r text. response = Some r \<and> \<not> IsError r \<and> Content r = [TextContent text])"
  by (auto simp: moduleDetails_assert_def prog_defs as_TextContent_def
      split: if_splits option.splits list.splits Content.splits)

lemma searchModules_accepts:
  "\<not> TestShouldFail testCase \<Longrightarrow>
   (fst (searchModules_assert testCase response err s) = Inr ()) =
   (err = None \<and> (\<exists>r. response = Some r \<and> \<not> IsError r \<and>
       (Content r = [] \<or> (\<exists>text rest. Content r = TextContent text # rest))))"
  by (auto simp: searchModules_assert_def prog_defs as_TextContent_def
      split: if_splits option.splits list.splits Content.splits)

text \<open>
  Claim C6, as amended. For a test case flagged expected-success, the sub-tests of
  \<^verbatim>\<open>resolveProviderDocID\<close>, \<^verbatim>\<open>getProviderDocs\<close> and \<^verbatim>\<open>moduleDetails\<close> pass their
  assertions only if the call returned no error and a response whose error flag is unset
  and whose content is exactly one text item. The sub-test of \<^verbatim>\<open>searchModules\<close> passes
  exactly when the call returned no error and a response whose error flag is unset and
  whose content is empty or begins with a text item; the items after the first are not
  looked at.
\<close>

theorem expected_success_accepts:
  assumes "\<not> TestShouldFail testCase"
  shows "(fst (resolveProviderDocID_assert K testCase response err s) = Inr () \<longrightarrow>
            err = None \<and>
            (\<exists>r text. response = Some r \<and> \<not> IsError r \<and> Content r = [TextContent text]))
       \<and> (fst (getProviderDocs_assert testCase response err s) = Inr () \<longrightarrow>
            err = None \<and>
            (\<exists>r text. response = Some r \<and> \<not> IsError r \<and> Content r = [TextContent text]))
       \<and> (fst (moduleDetails_assert K testCase response err s) = Inr () \<longrightarrow>
            err = None \<and>
            (\<exists>r text. response = Some r \<and> \<not> IsError r \<and> Content r = [TextContent text]))
       \<and> ((fst (searchModules_assert testCase response err s) = Inr ()) =
            (err = None \<and>
             (\<exists>r. response = Some r \<and> \<not> IsError r \<and>
                (Content r = [] \<or> (\<exists>text rest. Content r = TextContent text # rest)))))"
  using resolveProviderDocID_accepts [OF assms, of K response err s]
    getProviderDocs_accepts [OF assms, of response err s]
    moduleDetails_accepts [OF assms, of K response err s]
    searchModules_accepts [OF assms, of response err s]
  by blast

text \<open>
  The theorem at an expected-success case: a response of one text item with a page
  title passes \<^verbatim>\<open>getProviderDocs\<close>, and the empty response passes \<^verbatim>\<open>searchModules\<close>.
\<close>

theorem expected_success_accepts_witness:
  "\<not> TestShouldFail case0
   \<and> fst (getProviderDocs_assert case0 (Some one_text) None (start idle)) = Inr ()
   \<and> (\<exists>r text. Some one_text = Some r \<and> \<not> IsError r \<and> Content r = [TextContent text])
   \<and> fst (searchModules_assert case0 (Some \<lparr>Content = [], IsError = False\<rparr>) None (start idle)) = Inr ()"
proof -
  have n: "\<not> TestShouldFail case0"
    by (simp add: case0_def)
  have p: "fst (getProviderDocs_assert case0 (Some one_text) None (start idle)) = Inr ()"
    by code_simp
  from expected_success_accepts [OF n, of K0 "Some one_text" None "start idle"] p
  have shape: "\<exists>r text. Some one_text = Some r \<and> \<not> IsError r \<and> Content r = [TextContent text]"
    by blast
  from expected_success_accepts [OF n, of K0 "Some \<lparr>Content = [], IsError = False\<rparr>" None "start idle"]
  have "fst (searchModules_assert case0 (Some \<lparr>Content = [], IsError = False\<rparr>) None (start idle)) = Inr ()"
    by simp
  with n p shape show ?thesis
    by blast
qed

text \<open>
  Claim C6 as stated fails on \<^verbatim>\<open>searchModules\<close>: a response whose second item is an
  image passes the assertions of an expected-success case.
\<close>

theorem searchModules_image_counterexample:
  "\<not> TestShouldFail case0
   \<and> fst (searchModules_assert case0 (Some text_then_image) None (start idle)) = Inr ()
   \<and> Content text_then_image ! 1 = ImageContent ''iVBORw0KGgo='' ''image/png''"
  by code_simp

subsection \<open>The tool \<^verbatim>\<open>policy_details\<close>\<close>

lemma getPolicyDetailsHandler_rejects:
  assumes "\<forall>str. map_of (GetArguments request) ''terraform_policy_id'' = Some (AString str) \<longrightarrow> str = ''''"
  shows "fst (fst (getPolicyDetailsHandler reg request)) = None
     \<and> snd (fst (getPolicyDetailsHandler reg request)) \<noteq> None
     \<and> snd (getPolicyDetailsHandler reg request) = []"
  using assms
  by (auto simp: getPolicyDetailsHandler_def RequireString_def LogAndReturnError_def
      split: option.splits any.splits)

lemma getPolicyDetailsHandler_calls:
  assumes "map_of (GetArguments request) ''terraform_policy_id'' = Some (AString str)" "str \<noteq> ''''"
  shows "snd (getPolicyDetailsHandler reg request) =
     [(''GET'', str @ ''?include=policies,policy-modules,policy-library'', ''v2'')]"
  using assms
  by (auto simp: getPolicyDetailsHandler_def RequireString_def LogAndReturnError_def Let_def
      split: option.splits any.splits prod.splits)

text \<open>
  Claim C10. When the argument \<open>terraform_policy_id\<close> of the request is missing, is not
  a string, or is the empty string, \<^verbatim>\<open>getPolicyDetailsHandler\<close> returns a nil result and
  a non-nil error and makes no registry call. Whenever it makes a registry call, the
  argument is a non-empty string, and the call is the one \<^verbatim>\<open>GET\<close> of that identifier.
\<close>

theorem getPolicyDetailsHandler_requires_id:
  "((map_of (GetArguments request) ''terraform_policy_id'' = None
      \<or> (\<exists>v. map_of (GetArguments request) ''terraform_policy_id'' = Some v
               \<and> (\<forall>str. v \<noteq> AString str))
      \<or> map_of (GetArguments request) ''terraform_policy_id'' = Some (AString '''')) \<longrightarrow>
       fst (fst (getPolicyDetailsHandler reg request)) = None
       \<and> snd (fst (getPolicyDetailsHandler reg request)) \<noteq> None
       \<and> snd (getPolicyDetailsHandler reg request) = [])
   \<and> (snd (getPolicyDetailsHandler reg request) \<noteq> [] \<longrightarrow>
       (\<exists>str. str \<noteq> '''' \<and>
          map_of (GetArguments request) ''terraform_policy_id'' = Some (AString str) \<and>
          snd (getPolicyDetailsHandler reg request) =
            [(''GET'', str @ ''?include=policies,policy-modules,policy-library'', ''v2'')]))"
proof (intro conjI impI)
  assume a: "map_of (GetArguments request) ''terraform_policy_id'' = None
      \<or> (\<exists>v. map_of (GetArguments request) ''terraform_policy_id'' = Some v
               \<and> (\<forall>str. v \<noteq> AString str))
      \<or> map_of (GetArguments request) ''terraform_policy_id'' = Some (AString '''')"
  then have r: "\<forall>str. map_of (GetArguments request) ''terraform_policy_id'' = Some (AString str) \<longrightarrow> str = ''''"
    by auto
  from getPolicyDetailsHandler_rejects [OF r, of reg]
  show "fst (fst (getPolicyDetailsHandler reg request)) = None"
    and "snd (fst (getPolicyDetailsHandler reg request)) \<noteq> None"
    and "snd (getPolicyDetailsHandler reg request) = []"
    by simp_all
next
  assume c: "snd (getPolicyDetailsHandler reg request) \<noteq> []"
  have "\<not> (\<forall>str. map_of (GetArguments request) ''terraform_policy_id'' = Some (AString str) \<longrightarrow> str = '''')"
    using getPolicyDetailsHandler_rejects [of request reg] c by blast
  then obtain str where s: "map_of (GetArguments request) ''terraform_policy_id'' = Some (AString str)"
    "str \<noteq> ''''"
    by blast
  with getPolicyDetailsHandler_calls [OF s, of reg]
  show "\<exists>str. str \<noteq> '''' \<and>
          map_of (GetArguments request) ''terraform_policy_id'' = Some (AString str) \<and>
          snd (getPolicyDetailsHandler reg request) =
            [(''GET'', str @ ''?include=policies,policy-modules,policy-library'', ''v2'')]"
    by blast
qed

text \<open>
  The theorem at a request without the argument, with a number, with the empty string,
  and with a policy identifier: only the last one reaches the registry.
\<close>

theorem getPolicyDetailsHandler_requires_id_witness:
  "map_of (GetArguments (request_of [])) ''terraform_policy_id'' = None
   \<and> fst (fst (getPolicyDetailsHandler no_registry (request_of []))) = None
   \<and> snd (fst (getPolicyDetailsHandler no_registry (request_of []))) \<noteq> None
   \<and> snd (getPolicyDetailsHandler no_registry (request_of [])) = []
   \<and> snd (getPolicyDetailsHandler no_registry
            (request_of [(''terraform_policy_id'', ANumber 7)])) = []
   \<and> snd (getPolicyDetailsHandler no_registry
            (request_of [(''terraform_policy_id'', AString '''')])) = []
   \<and> snd (getPolicyDetailsHandler no_registry
            (request_of [(''terraform_policy_id'', AString ''policies/hashicorp/CIS/1.0.1'')])) =
       [(''GET'', ''policies/hashicorp/CIS/1.0.1?include=policies,policy-modules,policy-library'',
         ''v2'')]"
proof -
  have missing: "map_of (GetArguments (request_of [])) ''terraform_policy_id'' = None"
    by (simp add: request_of_def GetArguments_def)
  have number: "\<exists>v. map_of (GetArguments (request_of [(''terraform_policy_id'', ANumber 7)]))
                      ''terraform_policy_id'' = Some v \<and> (\<forall>str. v \<noteq> AString str)"
    by (simp add: request_of_def GetArguments_def)
  have empty: "map_of (GetArguments (request_of [(''terraform_policy_id'', AString '''')]))
                 ''terraform_policy_id'' = Some (AString '''')"
    by (simp add: request_of_def GetArguments_def)
  have called: "snd (getPolicyDetailsHandler no_registry
            (request_of [(''terraform_policy_id'', AString ''policies/hashicorp/CIS/1.0.1'')])) =
       [(''GET'', ''policies/hashicorp/CIS/1.0.1?include=policies,policy-modules,policy-library'',
         ''v2'')]"
    by code_simp
  from getPolicyDetailsHandler_requires_id [of "request_of []" no_registry] missing
  have a: "fst (fst (getPolicyDetailsHandler no_registry (request_of []))) = None
     \<and> snd (fst (getPolicyDetailsHandler no_registry (request_of []))) \<noteq> None
     \<and> snd (getPolicyDetailsHandler no_registry (request_of [])) = []"
    by blast
  from getPolicyDetailsHandler_requires_id
         [of "request_of [(''terraform_policy_id'', ANumber 7)]" no_registry] number
  have b: "snd (getPolicyDetailsHandler no_registry
             (request_of [(''terraform_policy_id'', ANumber 7)])) = []"
    by blast
  from getPolicyDetailsHandler_requires_id
         [of "request_of [(''terraform_policy_id'', AString '''')]" no_registry] empty
  have c: "snd (getPolicyDetailsHandler no_registry
             (request_of [(''terraform_policy_id'', AString '''')])) = []"
    by blast
  from missing a b c called show ?thesis
    by blast
qed

subsection \<open>Starting a container\<close>

text \<open>
  What \<^verbatim>\<open>startHTTPContainer\<close> does with the outcome of the launch command, in every
  world: a failed command stops the calling test, an output of at least 12 bytes gives
  its first 12 bytes, and a shorter output of a successful command panics.
\<close>

lemma startHTTPContainer_outcome:
  assumes "run_Cmd env (docker_run_http port) (world s) = ((output, err), w)"
  shows "fst (startHTTPContainer env port s) =
     (if err \<noteq> None then Inl FailNow
      else if 12 \<le> length output then Inr (take 12 output)
      else Inl Panicked)"
  using assms
  by (simp add: startHTTPContainer_def prog_defs slice_to_def Let_def docker_run_http_def)

text \<open>
  Claim C4, where the launch command succeeds and prints nothing: the slice
  \<^verbatim>\<open>string(output)[:12]\<close> panics and the run dies in the sub-test \<^verbatim>\<open>HTTP\<close>: no test
  result is reported, and the last thing the process does is the sweep, as a cleanup of
  \<^verbatim>\<open>TestE2E\<close>.
\<close>

theorem startHTTPContainer_short_output_panics:
  "run_Cmd mute (docker_run_http ''8080'') (world (start idle)) = (('''', None), idle)
   \<and> fst (startHTTPContainer mute ''8080'' (start idle)) = Inl Panicked
   \<and> fst (go_test mute K0 T0 idle) = Inl Crashed
   \<and> started (trace (snd (go_test mute K0 T0 idle))) =
       [''TestE2E'', ''Stdio'', ''Initialize'', ''Stdio_searchModules/valid_query'', ''HTTP'']
   \<and> last (trace (snd (go_test mute K0 T0 idle))) = Log ''No test containers found to cleanup''"
  by code_simp

subsection \<open>The handshake\<close>

text \<open>
  The two handshakes, in every world where the client's \<^verbatim>\<open>Initialize\<close> returns an
  error: \<^verbatim>\<open>ensureClientInitialized\<close> stops the calling test through \<^verbatim>\<open>t.Fatalf\<close>, and
  the sub-test \<^verbatim>\<open>Initialize\<close> of \<^verbatim>\<open>runTestSuite\<close> ends the process through
  \<^verbatim>\<open>log.Fatalf\<close>.
\<close>

lemma ensureClientInitialized_error:
  assumes "Initialize env c (initialize_request env) (world s) = ((result, Some e), w)"
  shows "fst (ensureClientInitialized env (Some c) s) = Inl FailNow"
  using assms
  by (simp add: ensureClientInitialized_def client_Initialize_def prog_defs)

lemma Initialize_test_error:
  assumes "Initialize env c (initialize_request env) (world s) = ((result, Some e), w)"
  shows "fst (Initialize_test env (Some c) s) = Inl Exited"
  using assms
  by (simp add: Initialize_test_def client_Initialize_def log_Fatalf_def prog_defs)

text \<open>
  A sub-test that stops through \<^verbatim>\<open>FailNow\<close> gives the control back to its parent, which
  goes on; a sub-test in which the process exits gives nothing back.
\<close>

lemma t_Run_FailNow:
  assumes "fst (f (s\<lparr>trace := trace s @ [Run name], cleanups := [], failed := False\<rparr>)) = Inl FailNow"
  shows "\<exists>passed. fst (t_Run env name f s) = Inr passed"
  using assms
  by (cases "f (s\<lparr>trace := trace s @ [Run name], cleanups := [], failed := False\<rparr>)")
     (simp add: t_Run_def Let_def)

lemma t_Run_Exited:
  assumes "fst (f (s\<lparr>trace := trace s @ [Run name], cleanups := [], failed := False\<rparr>)) = Inl Exited"
  shows "fst (t_Run env name f s) = Inl Exited"
  using assms
  by (cases "f (s\<lparr>trace := trace s @ [Run name], cleanups := [], failed := False\<rparr>)")
     (simp add: t_Run_def)

text \<open>
  Claim C3, where the server refuses the handshake of the first client: the process
  exits in the sub-test \<^verbatim>\<open>Initialize\<close> of the stdio variant. The case of the table and
  the HTTP variant never start, and no cleanup runs.
\<close>

theorem handshake_error_ends_the_run:
  "fst (go_test (sim_env Map.empty) K0 T0 (idle\<lparr>refused := [0]\<rparr>)) = Inl Exited
   \<and> started (trace (snd (go_test (sim_env Map.empty) K0 T0 (idle\<lparr>refused := [0]\<rparr>)))) =
       [''TestE2E'', ''Stdio'', ''Initialize'']
   \<and> last (trace (snd (go_test (sim_env Map.empty) K0 T0 (idle\<lparr>refused := [0]\<rparr>)))) =
       Print ''Failed to initialize: connection refused''
   \<and> started (trace (snd (go_test (sim_env Map.empty) K0 T0 idle))) =
       [''TestE2E'', ''Stdio'', ''Initialize'', ''Stdio_searchModules/valid_query'',
        ''HTTP'', ''Initialize'', ''HTTP_searchModules/valid_query'']"
  by code_simp

subsection \<open>Containers at the end of the run\<close>

text \<open>
  Claim C1, where the server refuses the handshake of the HTTP client: the container
  has been started and its stop registered as a cleanup, the process exits in the
  sub-test \<^verbatim>\<open>Initialize\<close>, and the run ends with the container running: the only commands
  run are the build and the launch, neither the stop nor the sweep. In the same world
  without the refusal the container is stopped.
\<close>

theorem handshake_error_leaves_the_container:
  "fst (go_test (sim_env Map.empty) K0 T0 (idle\<lparr>refused := [1]\<rparr>)) = Inl Exited
   \<and> commands (trace (snd (go_test (sim_env Map.empty) K0 T0 (idle\<lparr>refused := [1]\<rparr>)))) =
       [(exec_Command [''make'', ''VERSION=test-e2e'', ''docker-build''])\<lparr>Dir := ''..''\<rparr>,
        docker_run_http ''8080'']
   \<and> live (world (snd (go_test (sim_env Map.empty) K0 T0 (idle\<lparr>refused := [1]\<rparr>)))) =
       [(id_a, ''terraform-mcp-server:test-e2e'')]
   \<and> fst (go_test (sim_env Map.empty) K0 T0 idle) = Inr True
   \<and> live (world (snd (go_test (sim_env Map.empty) K0 T0 idle))) = []"
  by code_simp

end
